theory Spec2Isabelle
  imports Main "HOL-Library.Word"
begin

section \<open>Go values that reach the handler\<close>

text \<open>
  Go strings and byte slices are sequences of bytes, so both are \<open>string\<close> here.
  An \<open>error\<close> is known by the text its \<open>Error()\<close> method returns.
\<close>

type_synonym bytes = string
type_synonym error = string

text \<open>
  \<open>time.Time\<close> as the civil fields that \<open>Date()\<close>, \<open>Clock()\<close> and \<open>Zone()\<close> report
  (the offset in seconds east of UTC).
\<close>

record Time =
  year :: int
  month :: nat
  day :: nat
  hour :: nat
  minute :: nat
  second :: nat
  offset :: int

text \<open>
  What \<open>Value.Any()\<close> can hold for a value of kind Any: the nil interface, an error, a
  string, or some other Go value, which stays opaque (\<open>'a\<close>). \<open>slog.AnyValue\<close> turns a Go
  string into a value of kind String, so the handler meets \<open>AString\<close> only when
  \<open>formatAnyValue\<close> is called directly, as the package's tests do.
\<close>

datatype 'a anyval = ANil | AError error | AString string | AOther 'a

text \<open>
  \<open>slog.Value\<close> by kind, and \<open>slog.Attr\<close>. Integers and durations are 64-bit words
  (\<open>sint\<close> reads an int64, \<open>unat\<close> a uint64), a float64 is its 64 bits.
\<close>

datatype 'a Value =
    KindString string
  | KindInt64 "64 word"
  | KindUint64 "64 word"
  | KindFloat64 "64 word"
  | KindBool bool
  | KindDuration "64 word"
  | KindTime Time
  | KindGroup "'a Attr list"
  | KindAny "'a anyval"
  | KindLogValuer 'a
and 'a Attr = Attr (Key: string) (Val: "'a Value")

text \<open>\<open>slog.Level\<close> is a Go \<open>int\<close>; the handler only compares levels.\<close>

type_synonym Level = int

definition LevelDebug :: Level where "LevelDebug = - 4"
definition LevelInfo :: Level where "LevelInfo = 0"
definition LevelWarn :: Level where "LevelWarn = 4"
definition LevelError :: Level where "LevelError = 8"

text \<open>\<open>slog.Record\<close>: \<open>Attrs\<close> lists the attributes in the order \<open>Record.Attrs\<close> visits them.\<close>

record 'a Record =
  Time :: Time
  Message :: string
  Level :: Level
  Attrs :: "'a Attr list"

text \<open>
  The dynamic values \<open>formatValue\<close> returns as \<open>interface{}\<close>: a string, an int64, a
  uint64, a float64, a bool, an error, a \<open>json.RawMessage\<close> (a named byte-slice type), an
  attribute slice (\<open>Value.Any()\<close> of a group), the nil interface, or an opaque value.
\<close>

datatype 'a goval =
    GString string
  | GInt64 "64 word"
  | GUint64 "64 word"
  | GFloat64 "64 word"
  | GBool bool
  | GError error
  | GRawMessage bytes
  | GAttrs "'a Attr list"
  | GNil
  | GOther 'a

section \<open>The libraries the handler calls\<close>

text \<open>The colour attributes of \<open>github.com/fatih/color\<close> that the handler names.\<close>

datatype Attribute =
    FgGreen | FgWhite | FgHiRed | FgHiGreen | FgHiYellow | FgHiBlue | FgHiCyan | FgHiWhite

text \<open>
  Library functions the handler calls and this development does not spell out; every
  definition below takes them as the parameter \<open>lib\<close>:
  \<^item> \<open>Paint c s\<close>: the bytes \<open>color.New(c).Fprintf\<close> writes for the formatted text \<open>s\<close>
    (the text itself when \<open>color.NoColor\<close> is set);
  \<^item> \<open>DurationString\<close>: \<open>time.Duration.String\<close>;
  \<^item> \<open>FormatRFC3339\<close>: \<open>Time.Format(time.RFC3339)\<close>;
  \<^item> \<open>Unmarshal\<close>: the error \<open>json.Unmarshal\<close> into a \<open>json.RawMessage\<close> returns, if any;
  \<^item> \<open>MarshalIndent v prefix indent\<close>: \<open>json.MarshalIndent\<close>, an error or the JSON text;
  \<^item> \<open>Sprint\<close>: the verb \<open>%v\<close> of package fmt on the values not covered by \<open>fmt_v\<close>;
  \<^item> \<open>growcap old need\<close>: the capacity the runtime picks when \<open>append\<close> must reallocate
    (never taken below \<open>need\<close>).
\<close>

record 'a golib =
  Paint :: "Attribute \<Rightarrow> string \<Rightarrow> string"
  DurationString :: "64 word \<Rightarrow> string"
  FormatRFC3339 :: "Time \<Rightarrow> string"
  Unmarshal :: "bytes \<Rightarrow> error option"
  MarshalIndent :: "'a anyval \<Rightarrow> string \<Rightarrow> string \<Rightarrow> error + bytes"
  Sprint :: "'a goval \<Rightarrow> string"
  growcap :: "nat \<Rightarrow> nat \<Rightarrow> nat"

text \<open>Plain-text mode (\<open>color.NoColor = true\<close>, as the tests set it): no styling.\<close>

definition plain :: "Attribute \<Rightarrow> string \<Rightarrow> string" where
  "plain c s = s"

subsection \<open>Decimal numerals, as package fmt and package time print them\<close>

definition digit_char :: "nat \<Rightarrow> char" where
  "digit_char d = ''0123456789'' ! (d mod 10)"

fun decimal :: "nat \<Rightarrow> string" where
  "decimal n = (if n < 10 then [digit_char n] else decimal (n div 10) @ [digit_char (n mod 10)])"

declare decimal.simps [simp del]

definition decimal_int :: "int \<Rightarrow> string" where
  "decimal_int i = (if i < 0 then CHR ''-'' # decimal (nat (- i)) else decimal (nat i))"

text \<open>Two digits, zero-padded: \<open>appendInt(b, x, 2)\<close> of package time for \<open>x \<ge> 0\<close>.\<close>

definition pad2 :: "nat \<Rightarrow> string" where
  "pad2 n = (if n < 10 then CHR ''0'' # decimal n else decimal n)"

text \<open>\<open>Time.Format(time.TimeOnly)\<close>, layout \<open>15:04:05\<close>.\<close>

definition Format_TimeOnly :: "Time \<Rightarrow> string" where
  "Format_TimeOnly t = pad2 (hour t) @ '':'' @ pad2 (minute t) @ '':'' @ pad2 (second t)"

text \<open>The verb \<open>%-3s\<close>: left-justified in a field of the given width.\<close>

definition pad_right :: "nat \<Rightarrow> string \<Rightarrow> string" where
  "pad_right w s = s @ replicate (w - length s) CHR '' ''"

text \<open>Elements separated by single spaces, as fmt prints a slice.\<close>

fun join_sp :: "string list \<Rightarrow> string" where
  "join_sp [] = []"
| "join_sp [x] = x"
| "join_sp (x # y # ys) = x @ '' '' @ join_sp (y # ys)"

text \<open>
  The verb \<open>%v\<close>. A string prints as it is, integers in decimal, a bool as \<open>true\<close> or
  \<open>false\<close>, an error as its \<open>Error()\<close> text, nil as \<open><nil>\<close>. \<open>json.RawMessage\<close> has no \<open>String\<close>,
  \<open>Error\<close> or \<open>Format\<close> method, so fmt prints it as the slice of bytes it is: the
  decimal value of each byte, space-separated, in brackets.
\<close>

definition fmt_v :: "'a golib \<Rightarrow> 'a goval \<Rightarrow> string" where
  "fmt_v lib g =
     (case g of
        GString s \<Rightarrow> s
      | GInt64 w \<Rightarrow> decimal_int (sint w)
      | GUint64 w \<Rightarrow> decimal (unat w)
      | GBool b \<Rightarrow> (if b then ''true'' else ''false'')
      | GError e \<Rightarrow> e
      | GRawMessage bs \<Rightarrow> ''['' @ join_sp (map (\<lambda>c. decimal (of_char c)) bs) @ '']''
      | GNil \<Rightarrow> ''<nil>''
      | _ \<Rightarrow> Sprint lib g)"

section \<open>Value formatting\<close>

text \<open>\<open>isJSON\<close>: the string unmarshals into a \<open>json.RawMessage\<close> without error.\<close>

definition isJSON :: "'a golib \<Rightarrow> string \<Rightarrow> bool" where
  "isJSON lib str = (Unmarshal lib str = None)"

text \<open>
  \<open>formatAnyValue\<close>: an error is returned as it is; a string as a \<open>json.RawMessage\<close> when
  it is JSON and as itself otherwise; anything else is marshalled with an empty prefix
  and a two-space indent, and returned as it is when that fails.
\<close>

definition any_goval :: "'a anyval \<Rightarrow> 'a goval" where
  "any_goval v = (case v of ANil \<Rightarrow> GNil | AError e \<Rightarrow> GError e
                   | AString s \<Rightarrow> GString s | AOther x \<Rightarrow> GOther x)"

definition formatAnyValue :: "'a golib \<Rightarrow> 'a anyval \<Rightarrow> 'a goval" where
  "formatAnyValue lib v =
     (case v of
        AError e \<Rightarrow> GError e
      | AString str \<Rightarrow> (if isJSON lib str then GRawMessage str else GString str)
      | _ \<Rightarrow> (case MarshalIndent lib v '''' ''  '' of
                Inl err \<Rightarrow> any_goval v
              | Inr jsonBytes \<Rightarrow> GString jsonBytes))"

text \<open>
  \<open>formatValue\<close>, by kind; the default branch (a group or a LogValuer) returns
  \<open>Value.Any()\<close>.
\<close>

definition formatValue :: "'a golib \<Rightarrow> 'a Value \<Rightarrow> 'a goval" where
  "formatValue lib v =
     (case v of
        KindString s \<Rightarrow> GString s
      | KindInt64 i \<Rightarrow> GInt64 i
      | KindUint64 u \<Rightarrow> GUint64 u
      | KindFloat64 f \<Rightarrow> GFloat64 f
      | KindBool b \<Rightarrow> GBool b
      | KindDuration d \<Rightarrow> GString (DurationString lib d)
      | KindTime t \<Rightarrow> GString (FormatRFC3339 lib t)
      | KindAny a \<Rightarrow> formatAnyValue lib a
      | KindGroup as \<Rightarrow> GAttrs as
      | KindLogValuer x \<Rightarrow> GOther x)"

section \<open>Slices and the memory behind them\<close>

text \<open>
  A Go slice is a pointer into a backing array, a length and a capacity. A memory holds
  the backing arrays of one element type by address; an array's length is fixed when it
  is allocated, and the elements beyond a slice's length are there but not visible
  through it. Every slice of this program starts at the origin of its array.
\<close>

record slice =
  s_ptr :: nat
  s_len :: nat
  s_cap :: nat

type_synonym 'x memory = "'x list list"

definition array_at :: "'x memory \<Rightarrow> nat \<Rightarrow> 'x list" where
  "array_at mem p = (if p < length mem then mem ! p else [])"

text \<open>The elements a slice shows: \<open>s[0], ..., s[len(s)-1]\<close>.\<close>

definition elems :: "'x memory \<Rightarrow> slice \<Rightarrow> 'x list" where
  "elems mem s = take (s_len s) (array_at mem (s_ptr s))"

text \<open>\<open>make([]T, n)\<close>: a fresh array of \<open>n\<close> zero values \<open>z\<close>, length and capacity \<open>n\<close>.\<close>

definition make_slice :: "'x \<Rightarrow> 'x memory \<Rightarrow> nat \<Rightarrow> 'x memory \<times> slice" where
  "make_slice z mem n = (mem @ [replicate n z], \<lparr>s_ptr = length mem, s_len = n, s_cap = n\<rparr>)"

text \<open>\<open>copy(dst, src)\<close>: the first \<open>min(len(dst), len(src))\<close> elements, written in place.\<close>

definition copy_slice :: "'x memory \<Rightarrow> slice \<Rightarrow> slice \<Rightarrow> 'x memory" where
  "copy_slice mem dst src =
     (let n = min (s_len dst) (s_len src);
          arr = array_at mem (s_ptr dst)
      in mem[s_ptr dst := take n (elems mem src) @ drop n arr])"

text \<open>The full slice expression \<open>s[:len(s):len(s)]\<close>: the capacity is cut down to the length.\<close>

definition clip :: "slice \<Rightarrow> slice" where
  "clip s = s\<lparr>s_cap := s_len s\<rparr>"

text \<open>
  \<open>append(s, xs...)\<close>. When the capacity suffices, the new elements are written into the
  backing array of \<open>s\<close>, behind its length, where every other slice of that array sees
  them. Otherwise a new array is allocated, of a capacity the runtime picks (\<open>grow\<close>, at
  least what is needed), and the old elements are copied into it.
\<close>

definition append_slice ::
  "(nat \<Rightarrow> nat \<Rightarrow> nat) \<Rightarrow> 'x \<Rightarrow> 'x memory \<Rightarrow> slice \<Rightarrow> 'x list \<Rightarrow> 'x memory \<times> slice" where
  "append_slice grow z mem s xs =
     (let need = s_len s + length xs in
      if need \<le> s_cap s then
        (let arr = array_at mem (s_ptr s)
         in (mem[s_ptr s := take (s_len s) arr @ xs @ drop need arr], s\<lparr>s_len := need\<rparr>))
      else
        (let c = max need (grow (s_cap s) need)
         in (mem @ [elems mem s @ xs @ replicate (c - need) z],
             \<lparr>s_ptr = length mem, s_len = need, s_cap = c\<rparr>)))"

section \<open>The handler\<close>

text \<open>
  \<open>ColorHandler\<close>. The sink \<open>Writer\<close> is its \<open>Write\<close> method, acting on the world outside
  the handler (\<open>'s\<close>: the sink's contents and whatever the hook touches); \<open>HookFn\<close> is
  \<open>None\<close> for a nil function, and a hook that panics returns \<open>None\<close>. \<open>groups\<close> and \<open>attrs\<close>
  are slices into the heap's memories. A sink and a hook act on \<open>'s\<close> only: by their
  types they do not reach the handlers' heap. The mutex \<open>mu\<close> has no counterpart: calls
  are sequential here.
\<close>

record ('c, 's, 'a) ColorHandler =
  Writer :: "bytes \<Rightarrow> 's \<Rightarrow> 's \<times> error option"
  HookFn :: "('c \<Rightarrow> 'a Record \<Rightarrow> 's \<Rightarrow> 's option) option"
  groups :: slice
  attrs :: slice

text \<open>
  The heap: the backing arrays of the \<open>[]string\<close> and \<open>[]slog.Attr\<close> slices, and the
  handler objects; a \<open>*ColorHandler\<close> is an address into \<open>handler_mem\<close>.
\<close>

record ('c, 's, 'a) heap =
  string_mem :: "string memory"
  attr_mem :: "'a Attr memory"
  handler_mem :: "('c, 's, 'a) ColorHandler list"

definition empty_heap :: "('c, 's, 'a) heap" where
  "empty_heap = \<lparr>string_mem = [], attr_mem = [], handler_mem = []\<rparr>"

text \<open>The zero \<open>slog.Attr\<close>: an empty key and the zero \<open>Value\<close>, of kind Any and holding nil.\<close>

definition zero_Attr :: "'a Attr" where
  "zero_Attr = Attr [] (KindAny ANil)"

text \<open>\<open>NewColorHandler\<close>: two empty slices, no hook.\<close>

definition NewColorHandler ::
  "('c, 's, 'a) heap \<Rightarrow> (bytes \<Rightarrow> 's \<Rightarrow> 's \<times> error option) \<Rightarrow> ('c, 's, 'a) heap \<times> nat" where
  "NewColorHandler hp w =
     (let (sm, gs) = make_slice [] (string_mem hp) 0;
          (am, ats) = make_slice zero_Attr (attr_mem hp) 0
      in (hp\<lparr>string_mem := sm, attr_mem := am,
             handler_mem := handler_mem hp @ [\<lparr>Writer = w, HookFn = None, groups = gs, attrs = ats\<rparr>]\<rparr>,
          length (handler_mem hp)))"

text \<open>
  \<open>WithGroup\<close>: a new handler whose \<open>groups\<close> is a fresh copy of the receiver's with the
  name appended; \<open>attrs\<close> is the receiver's slice itself. A receiver that is no handler of
  the heap is a nil dereference (\<open>None\<close>).
\<close>

definition WithGroup ::
  "'a golib \<Rightarrow> ('c, 's, 'a) heap \<Rightarrow> nat \<Rightarrow> string \<Rightarrow> (('c, 's, 'a) heap \<times> nat) option" where
  "WithGroup lib hp h name =
     (if h < length (handler_mem hp) then
        (let H = handler_mem hp ! h;
             (sm1, gs) = make_slice [] (string_mem hp) (s_len (groups H));
             newHandler = \<lparr>Writer = Writer H, HookFn = HookFn H, groups = gs, attrs = attrs H\<rparr>;
             sm2 = copy_slice sm1 (groups newHandler) (groups H);
             (sm3, gs') = append_slice (growcap lib) [] sm2 (groups newHandler) [name];
             newHandler = newHandler\<lparr>groups := gs'\<rparr>
         in Some (hp\<lparr>string_mem := sm3, handler_mem := handler_mem hp @ [newHandler]\<rparr>,
                  length (handler_mem hp)))
      else None)"

text \<open>
  \<open>WithAttrs\<close>: a new handler whose \<open>attrs\<close> is \<open>append\<close> of the receiver's slice, clipped
  to its length, and the given attributes; \<open>groups\<close> is the receiver's slice itself.
\<close>

definition WithAttrs ::
  "'a golib \<Rightarrow> ('c, 's, 'a) heap \<Rightarrow> nat \<Rightarrow> 'a Attr list \<Rightarrow> (('c, 's, 'a) heap \<times> nat) option" where
  "WithAttrs lib hp h ats =
     (if h < length (handler_mem hp) then
        (let H = handler_mem hp ! h;
             (am, s) = append_slice (growcap lib) zero_Attr (attr_mem hp) (clip (attrs H)) ats;
             newHandler = \<lparr>Writer = Writer H, HookFn = HookFn H, groups = groups H, attrs = s\<rparr>
         in Some (hp\<lparr>attr_mem := am, handler_mem := handler_mem hp @ [newHandler]\<rparr>,
                  length (handler_mem hp)))
      else None)"

text \<open>\<open>Enabled\<close>: every level is logged.\<close>

definition Enabled :: "('c, 's, 'a) heap \<Rightarrow> nat \<Rightarrow> 'c \<Rightarrow> Level \<Rightarrow> bool" where
  "Enabled hp h ctx level = True"

text \<open>\<open>SetHook\<close> writes the receiver's \<open>HookFn\<close> field in place.\<close>

definition SetHook ::
  "('c, 's, 'a) heap \<Rightarrow> nat \<Rightarrow> ('c \<Rightarrow> 'a Record \<Rightarrow> 's \<Rightarrow> 's option) option
     \<Rightarrow> ('c, 's, 'a) heap option" where
  "SetHook hp h fn =
     (if h < length (handler_mem hp) then
        Some (hp\<lparr>handler_mem := (handler_mem hp)[h := (handler_mem hp ! h)\<lparr>HookFn := fn\<rparr>]\<rparr>)
      else None)"

section \<open>Rendering\<close>

text \<open>
  Modelled from the spec: the output buffer (\<open>newBuffer\<close>, the type \<open>buffer\<close> and its
  \<open>Write\<close> and \<open>Free\<close>), whose file is not among the sources. The spec has the line
  assembled in an output buffer and names no failure of it: a buffer is the bytes
  written so far, and a write extends it and returns no error.
\<close>

definition newBuffer :: bytes where
  "newBuffer = []"

definition buffer_Write :: "bytes \<Rightarrow> bytes \<Rightarrow> bytes \<times> error option" where
  "buffer_Write buf p = (buf @ p, None)"

text \<open>\<open>color.New(c).Fprintf(buf, format, ...)\<close>, given the text the format produces.\<close>

definition Fprintf :: "'a golib \<Rightarrow> Attribute \<Rightarrow> bytes \<Rightarrow> string \<Rightarrow> bytes \<times> error option" where
  "Fprintf lib c buf s = buffer_Write buf (Paint lib c s)"

text \<open>
  \<open>processAttr\<close> and the loops over attributes (\<open>processAttrs\<close>, the loop over a group's
  attributes, and \<open>Record.Attrs\<close> with a callback that returns true). The receiver is
  present through its \<open>groups\<close> slice, the only field read. For a group the temporary
  handler's \<open>groups\<close> is \<open>append\<close> of the receiver's slice, clipped, and the group's key:
  the string memory is threaded through. Both \<open>Fprintf\<close> results are discarded.
\<close>

fun processAttr ::
    "'a golib \<Rightarrow> slice \<Rightarrow> string memory \<times> bytes \<Rightarrow> 'a Attr \<Rightarrow> string memory \<times> bytes"
  and processAttrs ::
    "'a golib \<Rightarrow> slice \<Rightarrow> string memory \<times> bytes \<Rightarrow> 'a Attr list \<Rightarrow> string memory \<times> bytes"
where
  "processAttr lib gs (mem, buf) (Attr k (KindGroup groupAttrs)) =
     (let (mem', gs') = append_slice (growcap lib) [] mem (clip gs) [k]
      in processAttrs lib gs' (mem', buf) groupAttrs)"
| "processAttr lib gs (mem, buf) (Attr k v) =
     (let buf = fst (Fprintf lib FgHiGreen buf ('' '' @ k @ ''=''));
          buf = fst (Fprintf lib FgHiYellow buf (fmt_v lib (formatValue lib v)))
      in (mem, buf))"
| "processAttrs lib gs mb [] = mb"
| "processAttrs lib gs mb (attr # rest) = processAttrs lib gs (processAttr lib gs mb attr) rest"

text \<open>The \<open>switch\<close> of \<open>Handle\<close>: the level's colour, the message's colour and the tag.\<close>

definition level_switch :: "Level \<Rightarrow> Attribute \<times> Attribute \<times> string" where
  "level_switch l =
     (if l = LevelDebug then (FgHiCyan, FgHiCyan, ''DBG'')
      else if l = LevelInfo then (FgGreen, FgGreen, ''INF'')
      else if l = LevelWarn then (FgHiYellow, FgHiWhite, ''WRN'')
      else if l = LevelError then (FgHiRed, FgHiWhite, ''ERR'')
      else (FgWhite, FgHiWhite, ''???''))"

text \<open>
  The assembly of the line in \<open>Handle\<close>, from the time stamp to the record's attributes:
  an early return with the error of a failed \<open>Fprintf\<close> (\<open>Inl\<close>), or the string memory
  and the buffer.
\<close>

definition render ::
  "'a golib \<Rightarrow> ('c, 's, 'a) heap \<Rightarrow> ('c, 's, 'a) ColorHandler \<Rightarrow> 'a Record
     \<Rightarrow> error + string memory \<times> bytes" where
  "render lib hp H r =
     (let buf = newBuffer;
          timeStr = Format_TimeOnly (Time r);
          (levelColor, msgColor, levelStr) = level_switch (Level r);
          (buf, err) = Fprintf lib FgHiBlue buf (''['' @ timeStr @ ''] '')
      in case err of Some e \<Rightarrow> Inl e | None \<Rightarrow>
     (let (buf, err) = Fprintf lib levelColor buf (pad_right 3 levelStr @ '' '')
      in case err of Some e \<Rightarrow> Inl e | None \<Rightarrow>
     (let buf = (if 0 < s_len (groups H)
                 then foldl (\<lambda>b group. fst (Fprintf lib FgHiBlue b (group @ ''.''))) buf
                        (elems (string_mem hp) (groups H))
                 else buf);
          (buf, err) = Fprintf lib msgColor buf (Message r)
      in case err of Some e \<Rightarrow> Inl e | None \<Rightarrow>
     (let mb = processAttrs lib (groups H) (string_mem hp, buf) (elems (attr_mem hp) (attrs H));
          mb = processAttrs lib (groups H) mb (Attrs r)
      in Inr mb))))"

text \<open>The hook call of \<open>Handle\<close>: only with a hook set and a level of Error or above.\<close>

definition call_hook ::
  "('c, 's, 'a) ColorHandler \<Rightarrow> 'c \<Rightarrow> 'a Record \<Rightarrow> 's \<Rightarrow> 's option" where
  "call_hook H ctx r w =
     (case HookFn H of
        Some fn \<Rightarrow> (if LevelError \<le> Level r then fn ctx r w else Some w)
      | None \<Rightarrow> Some w)"

text \<open>
  How a call ends: a panic (a nil receiver, or the hook's own), or a return with the
  error result, the heap and the world.
\<close>

datatype ('h, 's) outcome = Panic | Return "error option" 'h 's

text \<open>
  \<open>Handle\<close>: the hook, the line, then the newline and the single \<open>Write\<close> of the whole
  buffer to the sink, whose error is returned.
\<close>

definition Handle ::
  "'a golib \<Rightarrow> ('c, 's, 'a) heap \<Rightarrow> nat \<Rightarrow> 'c \<Rightarrow> 'a Record \<Rightarrow> 's
     \<Rightarrow> (('c, 's, 'a) heap, 's) outcome" where
  "Handle lib hp h ctx r w =
     (if h < length (handler_mem hp) then
        (let H = handler_mem hp ! h in
         case call_hook H ctx r w of
           None \<Rightarrow> Panic
         | Some w1 \<Rightarrow>
             (case render lib hp H r of
                Inl e \<Rightarrow> Return (Some e) hp w1
              | Inr (mem, buf) \<Rightarrow>
                  (let (buf, err) = buffer_Write buf ''\<newline>'';
                       (w2, err) = Writer H buf w1
                   in Return err (hp\<lparr>string_mem := mem\<rparr>) w2)))
      else Panic)"

text \<open>What a caller observes of a call: nothing after a panic, else the world and the error.\<close>

definition observe :: "('h, 's) outcome \<Rightarrow> ('s \<times> error option) option" where
  "observe out = (case out of Panic \<Rightarrow> None | Return err hp w \<Rightarrow> Some (w, err))"

section \<open>What the specification says a line is\<close>

text \<open>
  The attribute renderer of the specification: a group attribute contributes the text
  of its children, in order, and nothing for its own key; any other attribute is a
  space, the key, \<open>=\<close> and the formatted value, the two spans styled.
\<close>

fun attr_text :: "'a golib \<Rightarrow> 'a Attr \<Rightarrow> string" where
  "attr_text lib (Attr k (KindGroup groupAttrs)) = concat (map (attr_text lib) groupAttrs)"
| "attr_text lib (Attr k v) =
     Paint lib FgHiGreen ('' '' @ k @ ''='') @ Paint lib FgHiYellow (fmt_v lib (formatValue lib v))"

definition attrs_text :: "'a golib \<Rightarrow> 'a Attr list \<Rightarrow> string" where
  "attrs_text lib ats = concat (map (attr_text lib) ats)"

text \<open>The level tag of the specification, by the numeric level.\<close>

definition level_tag :: "Level \<Rightarrow> string" where
  "level_tag l = (if l = - 4 then ''DBG'' else if l = 0 then ''INF''
                  else if l = 4 then ''WRN'' else if l = 8 then ''ERR'' else ''???'')"

text \<open>The group path as \<open>name.\<close> segments, outermost first.\<close>

definition group_prefix :: "'a golib \<Rightarrow> string list \<Rightarrow> string" where
  "group_prefix lib gs = concat (map (\<lambda>g. Paint lib FgHiBlue (g @ ''.'')) gs)"

text \<open>
  The line of the specification's grammar for a group path, bound attributes and a
  record, each span styled: time stamp, tag, group path, message, bound attributes,
  record attributes, newline.
\<close>

definition line :: "'a golib \<Rightarrow> string list \<Rightarrow> 'a Attr list \<Rightarrow> 'a Record \<Rightarrow> string" where
  "line lib gs bound r =
     Paint lib FgHiBlue (''['' @ Format_TimeOnly (Time r) @ ''] '')
     @ Paint lib (fst (level_switch (Level r))) (level_tag (Level r) @ '' '')
     @ group_prefix lib gs
     @ Paint lib (fst (snd (level_switch (Level r)))) (Message r)
     @ attrs_text lib bound @ attrs_text lib (Attrs r) @ ''\<newline>''"

section \<open>Well-formed heaps\<close>

text \<open>
  A slice is valid in a memory when its array is allocated and holds its capacity; a
  heap is well formed when the slices of all its handlers are valid. The empty heap is
  well formed and every operation of the handler keeps a heap so (lemmas
  \<open>wf_empty_heap\<close>, \<open>wf_NewColorHandler\<close>, \<open>WithGroup_derived\<close>, \<open>WithAttrs_derived\<close>,
  \<open>wf_SetHook\<close> and \<open>wf_Handle\<close>).
\<close>

definition valid_slice :: "'x memory \<Rightarrow> slice \<Rightarrow> bool" where
  "valid_slice mem s =
     (s_ptr s < length mem \<and> s_len s \<le> s_cap s \<and> s_cap s \<le> length (mem ! s_ptr s))"

definition wf_heap :: "('c, 's, 'a) heap \<Rightarrow> bool" where
  "wf_heap hp =
     list_all (\<lambda>H. valid_slice (string_mem hp) (groups H) \<and> valid_slice (attr_mem hp) (attrs H))
       (handler_mem hp)"

section \<open>Worked examples: a library, a sink, a hook, records\<close>

text \<open>
  Two opaque Go values: the struct of the package's test of \<open>formatAnyValue\<close>
  (\<open>Name: "Bob", Age: 30\<close>), and a channel, which package json cannot marshal.
\<close>

datatype sample = Person | Channel

text \<open>
  A library for the examples, in plain-text mode. Its \<open>Unmarshal\<close> accepts the JSON
  documents the package's tests use and nothing else; its \<open>MarshalIndent\<close> knows the
  two sample values and nil; \<open>append\<close> reallocates to twice what is needed, which
  leaves spare capacity behind every appended slice.
\<close>

definition samplelib :: "sample golib" where
  "samplelib =
     \<lparr>Paint = plain,
      DurationString = (\<lambda>d. ''0s''),
      FormatRFC3339 = (\<lambda>t. ''0001-01-01T00:00:00Z''),
      Unmarshal = (\<lambda>s. if s = ''{\"key\":\"value\"}'' \<or> s = ''{\"a\":1}'' \<or> s = ''[1,2,3]''
                          \<or> s = ''\"hello\"'' \<or> s = ''42''
                       then None else Some ''invalid character''),
      MarshalIndent = (\<lambda>v prefix indent.
         case v of
           AOther Person \<Rightarrow>
             Inr (''{\<newline>'' @ indent @ ''\"name\": \"Bob\",\<newline>'' @ indent @ ''\"age\": 30\<newline>}'')
         | AOther Channel \<Rightarrow> Inl ''json: unsupported type: chan int''
         | _ \<Rightarrow> Inr ''null''),
      Sprint = (\<lambda>g. ''0xc000012345''),
      growcap = (\<lambda>old need. 2 * need)\<rparr>"

text \<open>
  The world of the examples: the contents of a \<open>bytes.Buffer\<close> sink, and the messages a
  hook has captured. The sink appends and never fails.
\<close>

type_synonym world = "bytes \<times> string list"

definition buffer_sink :: "bytes \<Rightarrow> world \<Rightarrow> world \<times> error option" where
  "buffer_sink p w = ((fst w @ p, snd w), None)"

definition capture_hook :: "unit \<Rightarrow> sample Record \<Rightarrow> world \<Rightarrow> world option" where
  "capture_hook ctx r w = Some (fst w, snd w @ [Message r])"

text \<open>\<open>newTestRecord\<close> of the package's tests: a record at 12:30:45 UTC on 2026-02-08.\<close>

definition newTestRecord :: "Level \<Rightarrow> string \<Rightarrow> sample Record" where
  "newTestRecord level msg =
     \<lparr>Time = \<lparr>year = 2026, month = 2, day = 8, hour = 12, minute = 30, second = 45, offset = 0\<rparr>,
      Message = msg, Level = level, Attrs = []\<rparr>"

text \<open>The heap after \<open>NewColorHandler\<close> on the buffer sink: the root handler is at address 0.\<close>

definition root_heap :: "(unit, world, sample) heap" where
  "root_heap = fst (NewColorHandler empty_heap buffer_sink)"

section \<open>The scoped handler of the specification\<close>

text \<open>
  The specification's \<open>ScopedHandler\<close>: the sink, the optional error hook, the group path
  and the bound attributes, as values. \<open>scoped hp h\<close> reads it off the heap: it is all
  that dispatch reads of the handler at address \<open>h\<close>.
\<close>

record ('c, 's, 'a) ScopedHandler =
  sink :: "bytes \<Rightarrow> 's \<Rightarrow> 's \<times> error option"
  errorHook :: "('c \<Rightarrow> 'a Record \<Rightarrow> 's \<Rightarrow> 's option) option"
  groupPath :: "string list"
  boundAttributes :: "'a Attr list"

definition scoped :: "('c, 's, 'a) heap \<Rightarrow> nat \<Rightarrow> ('c, 's, 'a) ScopedHandler" where
  "scoped hp h =
     (let H = handler_mem hp ! h
      in \<lparr>sink = Writer H, errorHook = HookFn H,
          groupPath = elems (string_mem hp) (groups H),
          boundAttributes = elems (attr_mem hp) (attrs H)\<rparr>)"

text \<open>
  The whole backing arrays behind a handler's two slices, the spare capacity beyond the
  slices' lengths included.
\<close>

definition backing :: "('c, 's, 'a) heap \<Rightarrow> nat \<Rightarrow> string list \<times> 'a Attr list" where
  "backing hp h =
     (let H = handler_mem hp ! h
      in (array_at (string_mem hp) (s_ptr (groups H)), array_at (attr_mem hp) (s_ptr (attrs H))))"

section \<open>Heaps of the worked examples\<close>

text \<open>The heap a derivation leaves behind (the heap as it was, had the call panicked).\<close>

definition after :: "('h \<times> nat) option \<Rightarrow> 'h \<Rightarrow> 'h" where
  "after res hp = (case res of Some (hp', h') \<Rightarrow> hp' | None \<Rightarrow> hp)"

text \<open>
  \<open>root.WithGroup("x").WithGroup("a").WithGroup("b").WithGroup("c")\<close>, one heap per call;
  the handlers are at the addresses 1 to 4.
\<close>

definition x_heap :: "(unit, world, sample) heap" where
  "x_heap = after (WithGroup samplelib root_heap 0 ''x'') root_heap"

definition xa_heap :: "(unit, world, sample) heap" where
  "xa_heap = after (WithGroup samplelib x_heap 1 ''a'') x_heap"

definition xab_heap :: "(unit, world, sample) heap" where
  "xab_heap = after (WithGroup samplelib xa_heap 2 ''b'') xa_heap"

definition xabc_heap :: "(unit, world, sample) heap" where
  "xabc_heap = after (WithGroup samplelib xab_heap 3 ''c'') xab_heap"

text \<open>
  \<open>root.WithAttrs(service="api")\<close>: the handler at address 1 has one bound attribute in
  a backing array of capacity two.
\<close>

definition api_heap :: "(unit, world, sample) heap" where
  "api_heap = after (WithAttrs samplelib root_heap 0 [Attr ''service'' (KindString ''api'')]) root_heap"

text \<open>The root handler after \<open>SetHook\<close> with the capturing hook.\<close>

definition hooked_heap :: "(unit, world, sample) heap" where
  "hooked_heap = (case SetHook root_heap 0 (Some capture_hook) of Some hp \<Rightarrow> hp | None \<Rightarrow> root_heap)"

section \<open>Facts about the model\<close>

subsection \<open>The attribute renderer and the line\<close>

lemma processAttr_buf:
  "snd (processAttr lib gs mb a) = snd mb @ attr_text lib a"
  "snd (processAttrs lib gs mb ats) = snd mb @ attrs_text lib ats"
  by (induction lib gs mb a and lib gs mb ats rule: processAttr_processAttrs.induct)
     (simp_all add: attrs_text_def Fprintf_def buffer_Write_def split: prod.splits)

lemma append_clip_grows:
  "xs \<noteq> [] \<Longrightarrow> \<exists>arr s'. append_slice g z mem (clip s) xs = (mem @ [arr], s')"
  by (simp add: append_slice_def clip_def Let_def)

lemma processAttr_mem:
  "\<exists>ext. fst (processAttr lib gs mb a) = fst mb @ ext"
  "\<exists>ext. fst (processAttrs lib gs mb ats) = fst mb @ ext"
proof (induction lib gs mb a and lib gs mb ats rule: processAttr_processAttrs.induct)
  case (1 lib gs mem buf k groupAttrs)
  obtain arr s' where a: "append_slice (growcap lib) [] mem (clip gs) [k] = (mem @ [arr], s')"
    using append_clip_grows [of "[k]"] by blast
  from 1 [OF a [symmetric] refl] obtain ext where
    "fst (processAttrs lib s' (mem @ [arr], buf) groupAttrs) = (mem @ [arr]) @ ext" by auto
  then show ?case using a by simp
next
  case (4 lib gs mb attr rest)
  then obtain e1 e2 where
    "fst (processAttr lib gs mb attr) = fst mb @ e1"
    "fst (processAttrs lib gs (processAttr lib gs mb attr) rest) = fst (processAttr lib gs mb attr) @ e2"
    by blast
  then have "fst (processAttrs lib gs mb (attr # rest)) = fst mb @ (e1 @ e2)" by simp
  then show ?case by blast
qed simp_all

lemma level_switch_tag: "snd (snd (level_switch l)) = level_tag l"
  by (simp add: level_switch_def level_tag_def LevelDebug_def LevelInfo_def LevelWarn_def
      LevelError_def)

lemma length_level_tag: "length (level_tag l) = 3"
  by (simp add: level_tag_def)

lemma pad_right_tag: "pad_right 3 (level_tag l) = level_tag l"
  by (simp add: pad_right_def length_level_tag)

lemma foldl_groups:
  "foldl (\<lambda>b group. fst (Fprintf lib c b (group @ ''.''))) buf gs
     = buf @ concat (map (\<lambda>g. Paint lib c (g @ ''.'')) gs)"
  by (induction gs arbitrary: buf) (simp_all add: Fprintf_def buffer_Write_def)

lemma elems_len0: "s_len s = 0 \<Longrightarrow> elems mem s = []"
  by (simp add: elems_def)

lemma pair_with_ext: "\<exists>ext. fst p = mem @ ext \<Longrightarrow> snd p = b \<Longrightarrow> \<exists>ext. p = (mem @ ext, b)"
  by (cases p) auto

lemma processAttrs_twice_mem:
  "\<exists>ext. fst (processAttrs lib gs (processAttrs lib gs' (mem, b) xs) ys) = mem @ ext"
proof -
  obtain e1 where "fst (processAttrs lib gs' (mem, b) xs) = mem @ e1"
    using processAttr_mem(2) [of lib gs' "(mem, b)" xs] by auto
  moreover obtain e2 where "fst (processAttrs lib gs (processAttrs lib gs' (mem, b) xs) ys)
      = fst (processAttrs lib gs' (mem, b) xs) @ e2"
    using processAttr_mem(2) [of lib gs "processAttrs lib gs' (mem, b) xs" ys] by auto
  ultimately have "fst (processAttrs lib gs (processAttrs lib gs' (mem, b) xs) ys) = mem @ (e1 @ e2)"
    by simp
  then show ?thesis by blast
qed

lemma render_eq:
  "\<exists>ext. render lib hp H r =
     Inr (string_mem hp @ ext,
          butlast (line lib (elems (string_mem hp) (groups H)) (elems (attr_mem hp) (attrs H)) r))"
proof -
  obtain lc mc tag where sw: "level_switch (Level r) = (lc, mc, tag)"
    by (cases "level_switch (Level r)") auto
  have tag: "tag = level_tag (Level r)"
    using level_switch_tag [of "Level r"] sw by simp
  have g: "(if 0 < s_len (groups H)
            then foldl (\<lambda>b group. fst (Fprintf lib FgHiBlue b (group @ ''.''))) buf
                   (elems (string_mem hp) (groups H))
            else buf) = buf @ group_prefix lib (elems (string_mem hp) (groups H))" for buf
    by (simp add: foldl_groups group_prefix_def elems_len0)
  show ?thesis
    unfolding render_def Let_def sw prod.case g
    by (simp add: Fprintf_def buffer_Write_def newBuffer_def tag pad_right_tag)
       (rule pair_with_ext, rule processAttrs_twice_mem,
        simp add: processAttr_buf line_def sw butlast_append)
qed

lemma Handle_observe:
  assumes "h < length (handler_mem hp)"
  shows "observe (Handle lib hp h ctx r w) =
     (case call_hook (handler_mem hp ! h) ctx r w of
        None \<Rightarrow> None
      | Some w1 \<Rightarrow>
          Some (Writer (handler_mem hp ! h)
            (line lib (elems (string_mem hp) (groups (handler_mem hp ! h)))
               (elems (attr_mem hp) (attrs (handler_mem hp ! h))) r) w1))"
proof -
  let ?H = "handler_mem hp ! h"
  obtain ext where r: "render lib hp ?H r =
     Inr (string_mem hp @ ext, butlast (line lib (elems (string_mem hp) (groups ?H)) (elems (attr_mem hp) (attrs ?H)) r))"
    using render_eq by blast
  have l: "butlast (line lib gs bs r) @ ''\<newline>'' = line lib gs bs r" for gs bs
    by (simp add: line_def butlast_append)
  show ?thesis
    using assms
    by (simp add: Handle_def observe_def r buffer_Write_def l Let_def split: option.splits prod.splits)
qed

subsection \<open>Slices, \<open>append\<close> and the derivations\<close>

text \<open>
  What the clip is for: \<open>append\<close> to a slice with spare capacity writes into the shared
  array, where a slice that reaches that far sees it; on the clipped slice it
  allocates and leaves the array alone.
\<close>

lemma append_spare_capacity_writes_in_place:
  "append_slice g z [[a, b]] \<lparr>s_ptr = 0, s_len = 1, s_cap = 2\<rparr> [c]
     = ([[a, c]], \<lparr>s_ptr = 0, s_len = 2, s_cap = 2\<rparr>)
   \<and> fst (append_slice g z [[a, b]] (clip \<lparr>s_ptr = 0, s_len = 1, s_cap = 2\<rparr>) [c]) ! 0 = [a, b]"
  by (simp add: append_slice_def clip_def array_at_def Let_def)

lemma valid_slice_ext: "valid_slice mem s \<Longrightarrow> valid_slice (mem @ ext) s"
  by (simp add: valid_slice_def nth_append)

lemma elems_ext: "s_ptr s < length mem \<Longrightarrow> elems (mem @ ext) s = elems mem s"
  by (simp add: elems_def array_at_def nth_append)

lemma length_elems: "valid_slice mem s \<Longrightarrow> length (elems mem s) = s_len s"
  by (simp add: elems_def array_at_def valid_slice_def)

lemma append_full:
  assumes "s_cap s = s_len s" "xs \<noteq> []" "length (elems mem s) = s_len s"
  shows "\<exists>arr s'. append_slice g z mem s xs = (mem @ [arr], s')
           \<and> valid_slice (mem @ [arr]) s' \<and> elems (mem @ [arr]) s' = elems mem s @ xs"
  using assms
  by (cases xs) (simp_all add: append_slice_def Let_def valid_slice_def elems_def array_at_def)

lemma append_clip:
  assumes "valid_slice mem s"
  shows "\<exists>ext s'. append_slice g z mem (clip s) xs = (mem @ ext, s')
           \<and> valid_slice (mem @ ext) s' \<and> elems (mem @ ext) s' = elems mem s @ xs"
proof (cases "xs = []")
  case True
  have "append_slice g z mem (clip s) [] = (mem @ [], clip s)"
    using assms by (simp add: append_slice_def clip_def Let_def array_at_def valid_slice_def)
  moreover have "valid_slice mem (clip s)" "elems mem (clip s) = elems mem s"
    using assms by (auto simp: valid_slice_def clip_def elems_def)
  ultimately show ?thesis using True by (metis append_Nil2)
next
  case False
  have c: "s_cap (clip s) = s_len (clip s)" "elems mem (clip s) = elems mem s"
    "s_len (clip s) = s_len s"
    by (simp_all add: clip_def elems_def)
  from append_full [of "clip s" xs mem g z] False assms
  show ?thesis unfolding c by (metis length_elems)
qed

lemma WithAttrs_Some:
  assumes "h < length (handler_mem hp)" "valid_slice (attr_mem hp) (attrs (handler_mem hp ! h))"
  shows "\<exists>ext s'. WithAttrs lib hp h ats =
           Some (hp\<lparr>attr_mem := attr_mem hp @ ext,
                    handler_mem := handler_mem hp @
                      [\<lparr>Writer = Writer (handler_mem hp ! h), HookFn = HookFn (handler_mem hp ! h),
                        groups = groups (handler_mem hp ! h), attrs = s'\<rparr>]\<rparr>,
                 length (handler_mem hp))
         \<and> valid_slice (attr_mem hp @ ext) s'
         \<and> elems (attr_mem hp @ ext) s' = elems (attr_mem hp) (attrs (handler_mem hp ! h)) @ ats"
proof -
  from append_clip [OF assms(2), of "growcap lib" zero_Attr ats]
  obtain ext s' where
    "append_slice (growcap lib) zero_Attr (attr_mem hp) (clip (attrs (handler_mem hp ! h))) ats
       = (attr_mem hp @ ext, s')"
    "valid_slice (attr_mem hp @ ext) s'"
    "elems (attr_mem hp @ ext) s' = elems (attr_mem hp) (attrs (handler_mem hp ! h)) @ ats"
    by blast
  then show ?thesis using assms(1) by (auto simp: WithAttrs_def Let_def)
qed

lemma WithGroup_Some:
  assumes "h < length (handler_mem hp)" "valid_slice (string_mem hp) (groups (handler_mem hp ! h))"
  shows "\<exists>ext gs'. WithGroup lib hp h name =
           Some (hp\<lparr>string_mem := string_mem hp @ ext,
                    handler_mem := handler_mem hp @
                      [\<lparr>Writer = Writer (handler_mem hp ! h), HookFn = HookFn (handler_mem hp ! h),
                        groups = gs', attrs = attrs (handler_mem hp ! h)\<rparr>]\<rparr>,
                 length (handler_mem hp))
         \<and> valid_slice (string_mem hp @ ext) gs'
         \<and> elems (string_mem hp @ ext) gs' = elems (string_mem hp) (groups (handler_mem hp ! h)) @ [name]"
proof -
  let ?H = "handler_mem hp ! h"
  let ?mem = "string_mem hp"
  let ?n = "s_len (groups ?H)"
  let ?gs = "\<lparr>s_ptr = length ?mem, s_len = ?n, s_cap = ?n\<rparr>"
  let ?sm2 = "?mem @ [elems ?mem (groups ?H)]"
  have len: "length (elems ?mem (groups ?H)) = ?n"
    using assms(2) by (rule length_elems)
  have mk: "make_slice [] ?mem ?n = (?mem @ [replicate ?n []], ?gs)"
    by (simp add: make_slice_def)
  have cp: "copy_slice (?mem @ [replicate ?n []]) ?gs (groups ?H) = ?sm2"
    using assms(2) len
    by (simp add: copy_slice_def Let_def array_at_def elems_ext valid_slice_def)
  have e2: "elems ?sm2 ?gs = elems ?mem (groups ?H)"
    using len by (simp add: elems_def array_at_def)
  from append_full [of ?gs "[name]" ?sm2 "growcap lib" "[]"] e2 len
  obtain arr gs' where ap: "append_slice (growcap lib) [] ?sm2 ?gs [name] = (?sm2 @ [arr], gs')"
    "valid_slice (?sm2 @ [arr]) gs'" "elems (?sm2 @ [arr]) gs' = elems ?mem (groups ?H) @ [name]"
    by auto
  have "WithGroup lib hp h name =
           Some (hp\<lparr>string_mem := ?sm2 @ [arr],
                    handler_mem := handler_mem hp @
                      [\<lparr>Writer = Writer ?H, HookFn = HookFn ?H, groups = gs', attrs = attrs ?H\<rparr>]\<rparr>,
                 length (handler_mem hp))"
    using assms(1) by (simp add: WithGroup_def mk cp ap(1) Let_def)
  then show ?thesis using ap(2,3) by (metis append.assoc)
qed

lemma wf_heap_nth:
  "wf_heap hp \<Longrightarrow> h < length (handler_mem hp) \<Longrightarrow>
     valid_slice (string_mem hp) (groups (handler_mem hp ! h))
     \<and> valid_slice (attr_mem hp) (attrs (handler_mem hp ! h))"
  by (simp add: wf_heap_def list_all_length)

lemma array_at_ext: "p < length mem \<Longrightarrow> array_at (mem @ ext) p = array_at mem p"
  by (simp add: array_at_def nth_append)

lemma WithGroup_derived:
  assumes wf: "wf_heap hp" and h: "h < length (handler_mem hp)"
  shows "\<exists>hp' ext gs'.
           WithGroup lib hp h name = Some (hp', length (handler_mem hp))
         \<and> wf_heap hp'
         \<and> string_mem hp' = string_mem hp @ ext
         \<and> attr_mem hp' = attr_mem hp
         \<and> handler_mem hp' = handler_mem hp @
              [\<lparr>Writer = Writer (handler_mem hp ! h), HookFn = HookFn (handler_mem hp ! h),
                groups = gs', attrs = attrs (handler_mem hp ! h)\<rparr>]
         \<and> elems (string_mem hp') gs' = elems (string_mem hp) (groups (handler_mem hp ! h)) @ [name]"
proof -
  let ?H = "handler_mem hp ! h"
  from wf_heap_nth [OF wf h] have v: "valid_slice (string_mem hp) (groups ?H)"
    "valid_slice (attr_mem hp) (attrs ?H)" by simp_all
  from WithGroup_Some [OF h v(1), of lib name] obtain ext gs' where
    w: "WithGroup lib hp h name =
           Some (hp\<lparr>string_mem := string_mem hp @ ext,
                    handler_mem := handler_mem hp @
                      [\<lparr>Writer = Writer ?H, HookFn = HookFn ?H, groups = gs', attrs = attrs ?H\<rparr>]\<rparr>,
                 length (handler_mem hp))"
    and g: "valid_slice (string_mem hp @ ext) gs'"
      "elems (string_mem hp @ ext) gs' = elems (string_mem hp) (groups ?H) @ [name]"
    by blast
  let ?hp' = "hp\<lparr>string_mem := string_mem hp @ ext,
                    handler_mem := handler_mem hp @
                      [\<lparr>Writer = Writer ?H, HookFn = HookFn ?H, groups = gs', attrs = attrs ?H\<rparr>]\<rparr>"
  have "wf_heap ?hp'"
    using wf v g(1) by (auto simp: wf_heap_def list_all_iff intro: valid_slice_ext)
  then show ?thesis using w g(2) by auto
qed

lemma WithAttrs_derived:
  assumes wf: "wf_heap hp" and h: "h < length (handler_mem hp)"
  shows "\<exists>hp' ext s'.
           WithAttrs lib hp h ats = Some (hp', length (handler_mem hp))
         \<and> wf_heap hp'
         \<and> string_mem hp' = string_mem hp
         \<and> attr_mem hp' = attr_mem hp @ ext
         \<and> handler_mem hp' = handler_mem hp @
              [\<lparr>Writer = Writer (handler_mem hp ! h), HookFn = HookFn (handler_mem hp ! h),
                groups = groups (handler_mem hp ! h), attrs = s'\<rparr>]
         \<and> elems (attr_mem hp') s' = elems (attr_mem hp) (attrs (handler_mem hp ! h)) @ ats"
proof -
  let ?H = "handler_mem hp ! h"
  from wf_heap_nth [OF wf h] have v: "valid_slice (string_mem hp) (groups ?H)"
    "valid_slice (attr_mem hp) (attrs ?H)" by simp_all
  from WithAttrs_Some [OF h v(2), of lib ats] obtain ext s' where
    w: "WithAttrs lib hp h ats =
           Some (hp\<lparr>attr_mem := attr_mem hp @ ext,
                    handler_mem := handler_mem hp @
                      [\<lparr>Writer = Writer ?H, HookFn = HookFn ?H, groups = groups ?H, attrs = s'\<rparr>]\<rparr>,
                 length (handler_mem hp))"
    and g: "valid_slice (attr_mem hp @ ext) s'"
      "elems (attr_mem hp @ ext) s' = elems (attr_mem hp) (attrs ?H) @ ats"
    by blast
  let ?hp' = "hp\<lparr>attr_mem := attr_mem hp @ ext,
                    handler_mem := handler_mem hp @
                      [\<lparr>Writer = Writer ?H, HookFn = HookFn ?H, groups = groups ?H, attrs = s'\<rparr>]\<rparr>"
  have "wf_heap ?hp'"
    using wf v g(1) by (auto simp: wf_heap_def list_all_iff intro: valid_slice_ext)
  then show ?thesis using w g(2) by auto
qed

subsection \<open>Every operation keeps the heap well formed\<close>

lemma wf_empty_heap: "wf_heap empty_heap"
  by (simp add: wf_heap_def empty_heap_def)

lemma wf_NewColorHandler: "wf_heap hp \<Longrightarrow> wf_heap (fst (NewColorHandler hp w))"
  by (auto simp: NewColorHandler_def make_slice_def wf_heap_def list_all_iff valid_slice_def
      nth_append)

lemma wf_SetHook: "wf_heap hp \<Longrightarrow> SetHook hp h fn = Some hp' \<Longrightarrow> wf_heap hp'"
  by (auto simp: SetHook_def wf_heap_def list_all_length nth_list_update split: if_splits)

lemma wf_Handle:
  assumes "wf_heap hp" "Handle lib hp h ctx r w = Return err hp' w'"
  shows "wf_heap hp'"
proof -
  have *: "wf_heap (hp\<lparr>string_mem := string_mem hp @ ext\<rparr>)" for ext
    using assms(1) by (auto simp: wf_heap_def list_all_iff intro: valid_slice_ext)
  let ?H = "handler_mem hp ! h"
  obtain ext where r: "render lib hp ?H r =
     Inr (string_mem hp @ ext,
          butlast (line lib (elems (string_mem hp) (groups ?H)) (elems (attr_mem hp) (attrs ?H)) r))"
    using render_eq by blast
  show ?thesis
    using assms(2) * [of ext]
    by (auto simp: Handle_def r Let_def buffer_Write_def split: if_splits option.splits prod.splits)
qed

subsection \<open>Numerals of the examples\<close>

lemma decimal_1digit: "n < 10 \<Longrightarrow> decimal n = [digit_char n]"
  by (simp add: decimal.simps)

lemma decimal_2digits:
  assumes "10 \<le> n" "n < 100"
  shows "decimal n = [digit_char (n div 10), digit_char (n mod 10)]"
proof -
  have "n div 10 < 10" using assms(2) by simp
  then show ?thesis
    using assms(1) by (simp add: decimal.simps [of n] decimal.simps [of "n div 10"])
qed

lemma Format_TimeOnly_test:
  "Format_TimeOnly \<lparr>year = 2026, month = 2, day = 8, hour = 12, minute = 30, second = 45, offset = 0\<rparr>
     = ''12:30:45''"
  by (simp add: Format_TimeOnly_def pad2_def decimal_2digits digit_char_def)

subsection \<open>Dispatch in terms of the scoped handler; derivations as heap extensions\<close>

lemma line_plain:
  "Paint lib = plain \<Longrightarrow>
   line lib gs bound r =
     ''['' @ Format_TimeOnly (Time r) @ ''] '' @ level_tag (Level r) @ '' ''
     @ concat (map (\<lambda>g. g @ ''.'') gs) @ Message r
     @ attrs_text lib bound @ attrs_text lib (Attrs r) @ ''\<newline>''"
  by (simp add: line_def plain_def group_prefix_def)

lemma samplelib_Paint: "Paint samplelib = plain"
  by (simp add: samplelib_def)

lemma scoped_simps:
  "sink (scoped hp h) = Writer (handler_mem hp ! h)"
  "errorHook (scoped hp h) = HookFn (handler_mem hp ! h)"
  "groupPath (scoped hp h) = elems (string_mem hp) (groups (handler_mem hp ! h))"
  "boundAttributes (scoped hp h) = elems (attr_mem hp) (attrs (handler_mem hp ! h))"
  by (simp_all add: scoped_def Let_def)

lemma Handle_scoped:
  assumes "h < length (handler_mem hp)" "h' < length (handler_mem hp')" "scoped hp' h' = scoped hp h"
  shows "observe (Handle lib hp' h' ctx r w) = observe (Handle lib hp h ctx r w)"
proof -
  from assms(3) have "Writer (handler_mem hp' ! h') = Writer (handler_mem hp ! h)"
    "HookFn (handler_mem hp' ! h') = HookFn (handler_mem hp ! h)"
    "elems (string_mem hp') (groups (handler_mem hp' ! h')) = elems (string_mem hp) (groups (handler_mem hp ! h))"
    "elems (attr_mem hp') (attrs (handler_mem hp' ! h')) = elems (attr_mem hp) (attrs (handler_mem hp ! h))"
    by (simp_all add: scoped_def Let_def)
  then show ?thesis
    by (simp add: Handle_observe [OF assms(1)] Handle_observe [OF assms(2)] call_hook_def
        split: option.splits)
qed

lemma Handle_observe_scoped:
  assumes "h < length (handler_mem hp)"
  shows "observe (Handle lib hp h ctx r w) =
     (case (case errorHook (scoped hp h) of
              Some fn \<Rightarrow> (if LevelError \<le> Level r then fn ctx r w else Some w)
            | None \<Rightarrow> Some w) of
        None \<Rightarrow> None
      | Some w1 \<Rightarrow>
          Some (sink (scoped hp h)
                  (line lib (groupPath (scoped hp h)) (boundAttributes (scoped hp h)) r) w1))"
  by (simp add: Handle_observe [OF assms] scoped_def Let_def call_hook_def split: option.splits)

lemma frame_extension:
  assumes wf: "wf_heap hp" and i: "i < length (handler_mem hp)"
    and "string_mem hp' = string_mem hp @ e1" "attr_mem hp' = attr_mem hp @ e2"
      "handler_mem hp' = handler_mem hp @ e3"
  shows "handler_mem hp' ! i = handler_mem hp ! i \<and> scoped hp' i = scoped hp i
         \<and> backing hp' i = backing hp i"
proof -
  from wf_heap_nth [OF wf i] have "s_ptr (groups (handler_mem hp ! i)) < length (string_mem hp)"
    "s_ptr (attrs (handler_mem hp ! i)) < length (attr_mem hp)"
    by (simp_all add: valid_slice_def)
  then show ?thesis
    using assms(3-5) i
    by (simp add: scoped_def backing_def Let_def nth_append elems_ext array_at_ext)
qed

lemma WithGroup_scoped:
  assumes wf: "wf_heap hp" and h: "h < length (handler_mem hp)"
  shows "\<exists>hp'. WithGroup lib hp h name = Some (hp', length (handler_mem hp))
         \<and> wf_heap hp'
         \<and> length (handler_mem hp') = Suc (length (handler_mem hp))
         \<and> scoped hp' (length (handler_mem hp))
             = (scoped hp h)\<lparr>groupPath := groupPath (scoped hp h) @ [name]\<rparr>
         \<and> (\<forall>i < length (handler_mem hp).
               handler_mem hp' ! i = handler_mem hp ! i \<and> scoped hp' i = scoped hp i
               \<and> backing hp' i = backing hp i)"
proof -
  from WithGroup_derived [OF wf h, of lib name] obtain hp' ext gs' where
    d: "WithGroup lib hp h name = Some (hp', length (handler_mem hp))" "wf_heap hp'"
       "string_mem hp' = string_mem hp @ ext" "attr_mem hp' = attr_mem hp"
       "handler_mem hp' = handler_mem hp @
              [\<lparr>Writer = Writer (handler_mem hp ! h), HookFn = HookFn (handler_mem hp ! h),
                groups = gs', attrs = attrs (handler_mem hp ! h)\<rparr>]"
       "elems (string_mem hp') gs' = elems (string_mem hp) (groups (handler_mem hp ! h)) @ [name]"
    by blast
  have "scoped hp' (length (handler_mem hp))
             = (scoped hp h)\<lparr>groupPath := groupPath (scoped hp h) @ [name]\<rparr>"
    using d(4,5,6) by (simp add: scoped_def Let_def)
  moreover have "\<forall>i < length (handler_mem hp).
               handler_mem hp' ! i = handler_mem hp ! i \<and> scoped hp' i = scoped hp i
               \<and> backing hp' i = backing hp i"
    using frame_extension [OF wf _ d(3) _ d(5), of _ "[]"] d(4) by simp
  ultimately show ?thesis using d(1,2,5) by auto
qed

lemma WithAttrs_scoped:
  assumes wf: "wf_heap hp" and h: "h < length (handler_mem hp)"
  shows "\<exists>hp'. WithAttrs lib hp h ats = Some (hp', length (handler_mem hp))
         \<and> wf_heap hp'
         \<and> length (handler_mem hp') = Suc (length (handler_mem hp))
         \<and> scoped hp' (length (handler_mem hp))
             = (scoped hp h)\<lparr>boundAttributes := boundAttributes (scoped hp h) @ ats\<rparr>
         \<and> (\<forall>i < length (handler_mem hp).
               handler_mem hp' ! i = handler_mem hp ! i \<and> scoped hp' i = scoped hp i
               \<and> backing hp' i = backing hp i)"
proof -
  from WithAttrs_derived [OF wf h, of lib ats] obtain hp' ext s' where
    d: "WithAttrs lib hp h ats = Some (hp', length (handler_mem hp))" "wf_heap hp'"
       "string_mem hp' = string_mem hp" "attr_mem hp' = attr_mem hp @ ext"
       "handler_mem hp' = handler_mem hp @
              [\<lparr>Writer = Writer (handler_mem hp ! h), HookFn = HookFn (handler_mem hp ! h),
                groups = groups (handler_mem hp ! h), attrs = s'\<rparr>]"
       "elems (attr_mem hp') s' = elems (attr_mem hp) (attrs (handler_mem hp ! h)) @ ats"
    by blast
  have "scoped hp' (length (handler_mem hp))
             = (scoped hp h)\<lparr>boundAttributes := boundAttributes (scoped hp h) @ ats\<rparr>"
    using d(3,5,6) by (simp add: scoped_def Let_def)
  moreover have "\<forall>i < length (handler_mem hp).
               handler_mem hp' ! i = handler_mem hp ! i \<and> scoped hp' i = scoped hp i
               \<and> backing hp' i = backing hp i"
    using frame_extension [OF wf _ _ d(4) d(5), of _ "[]"] d(3) by simp
  ultimately show ?thesis using d(1,2,5) by auto
qed

lemma SetHook_scoped:
  assumes "h < length (handler_mem hp)"
  shows "\<exists>hp'. SetHook hp h fn = Some hp'
          \<and> length (handler_mem hp') = length (handler_mem hp)
          \<and> HookFn (handler_mem hp' ! h) = fn
          \<and> scoped hp' h = (scoped hp h)\<lparr>errorHook := fn\<rparr>
          \<and> (\<forall>i. i \<noteq> h \<longrightarrow> handler_mem hp' ! i = handler_mem hp ! i \<and> scoped hp' i = scoped hp i)"
  using assms by (simp add: SetHook_def scoped_def Let_def)

lemma WithGroup_after:
  assumes "wf_heap hp" "h < length (handler_mem hp)"
  shows "WithGroup lib hp h name = Some (after (WithGroup lib hp h name) hp, length (handler_mem hp))
         \<and> wf_heap (after (WithGroup lib hp h name) hp)
         \<and> length (handler_mem (after (WithGroup lib hp h name) hp)) = Suc (length (handler_mem hp))
         \<and> scoped (after (WithGroup lib hp h name) hp) (length (handler_mem hp))
             = (scoped hp h)\<lparr>groupPath := groupPath (scoped hp h) @ [name]\<rparr>"
  using WithGroup_scoped [OF assms, of lib name] by (auto simp: after_def)

subsection \<open>The heaps of the examples\<close>

lemma root_heap_eq:
  "root_heap = \<lparr>string_mem = [[]], attr_mem = [[]],
      handler_mem = [\<lparr>Writer = buffer_sink, HookFn = None,
                       groups = \<lparr>s_ptr = 0, s_len = 0, s_cap = 0\<rparr>,
                       attrs = \<lparr>s_ptr = 0, s_len = 0, s_cap = 0\<rparr>\<rparr>]\<rparr>"
  by (simp add: root_heap_def NewColorHandler_def make_slice_def empty_heap_def)

lemma wf_root_heap: "wf_heap root_heap"
  unfolding root_heap_def by (rule wf_NewColorHandler [OF wf_empty_heap])

lemma scoped_root: "scoped root_heap 0 =
    \<lparr>sink = buffer_sink, errorHook = None, groupPath = [], boundAttributes = []\<rparr>"
  by (simp add: scoped_def root_heap_eq elems_def)

lemma length_root: "length (handler_mem root_heap) = 1"
  by (simp add: root_heap_eq)

lemma decimal_8080: "decimal 8080 = ''8080''"
  by (simp add: decimal.simps digit_char_def)

lemma x_heap_facts:
  "WithGroup samplelib root_heap 0 ''x'' = Some (x_heap, 1) \<and> wf_heap x_heap
   \<and> length (handler_mem x_heap) = 2
   \<and> scoped x_heap 1 = \<lparr>sink = buffer_sink, errorHook = None, groupPath = [''x''], boundAttributes = []\<rparr>"
  using WithGroup_after [OF wf_root_heap, of 0 samplelib "''x''"]
  by (simp add: x_heap_def length_root scoped_root)

lemma xa_heap_facts:
  "WithGroup samplelib x_heap 1 ''a'' = Some (xa_heap, 2) \<and> wf_heap xa_heap
   \<and> length (handler_mem xa_heap) = 3
   \<and> scoped xa_heap 2 = \<lparr>sink = buffer_sink, errorHook = None, groupPath = [''x'', ''a''], boundAttributes = []\<rparr>"
  using WithGroup_after [of x_heap 1 samplelib "''a''"] x_heap_facts
  by (simp add: xa_heap_def)

lemma xab_heap_facts:
  "WithGroup samplelib xa_heap 2 ''b'' = Some (xab_heap, 3) \<and> wf_heap xab_heap
   \<and> length (handler_mem xab_heap) = 4
   \<and> scoped xab_heap 3 = \<lparr>sink = buffer_sink, errorHook = None, groupPath = [''x'', ''a'', ''b''], boundAttributes = []\<rparr>"
  using WithGroup_after [of xa_heap 2 samplelib "''b''"] xa_heap_facts
  by (simp add: xab_heap_def)

lemma xabc_heap_facts:
  "WithGroup samplelib xab_heap 3 ''c'' = Some (xabc_heap, 4) \<and> wf_heap xabc_heap
   \<and> length (handler_mem xabc_heap) = 5
   \<and> scoped xabc_heap 4 = \<lparr>sink = buffer_sink, errorHook = None, groupPath = [''x'', ''a'', ''b'', ''c''], boundAttributes = []\<rparr>"
  using WithGroup_after [of xab_heap 3 samplelib "''c''"] xab_heap_facts
  by (simp add: xabc_heap_def)

lemma api_heap_eq:
  "api_heap = \<lparr>string_mem = [[]],
      attr_mem = [[], [Attr ''service'' (KindString ''api''), zero_Attr]],
      handler_mem = [\<lparr>Writer = buffer_sink, HookFn = None,
                       groups = \<lparr>s_ptr = 0, s_len = 0, s_cap = 0\<rparr>,
                       attrs = \<lparr>s_ptr = 0, s_len = 0, s_cap = 0\<rparr>\<rparr>,
                     \<lparr>Writer = buffer_sink, HookFn = None,
                       groups = \<lparr>s_ptr = 0, s_len = 0, s_cap = 0\<rparr>,
                       attrs = \<lparr>s_ptr = 1, s_len = 1, s_cap = 2\<rparr>\<rparr>]\<rparr>"
  by (simp add: api_heap_def after_def WithAttrs_def root_heap_eq append_slice_def clip_def Let_def
      samplelib_def elems_def array_at_def)

lemma wf_api_heap: "wf_heap api_heap"
  by (simp add: api_heap_eq wf_heap_def valid_slice_def)

lemma hooked_heap_facts:
  "SetHook root_heap 0 (Some capture_hook) = Some hooked_heap
   \<and> length (handler_mem hooked_heap) = 1
   \<and> scoped hooked_heap 0 =
       \<lparr>sink = buffer_sink, errorHook = Some capture_hook, groupPath = [], boundAttributes = []\<rparr>"
  by (simp add: hooked_heap_def SetHook_def root_heap_eq scoped_def elems_def)

section \<open>The claims\<close>

text \<open>
  Claim C1. For a handler \<open>h\<close> of a well-formed heap, \<open>WithGroup\<close> and \<open>WithAttrs\<close> return
  (they do not panic) and leave \<open>h\<close> as it was: the handler object is the same, its group
  path and bound attributes read the same, the backing arrays of both its slices are
  the same in full (so nothing was written into spare capacity), and every later
  dispatch through \<open>h\<close> is observed as it would have been before the call.
\<close>

theorem derivation_leaves_receiver:
  assumes "wf_heap hp" "h < length (handler_mem hp)"
  shows "(\<exists>hp' h'. WithGroup lib hp h name = Some (hp', h')
            \<and> handler_mem hp' ! h = handler_mem hp ! h
            \<and> scoped hp' h = scoped hp h
            \<and> backing hp' h = backing hp h
            \<and> (\<forall>ctx r w. observe (Handle lib hp' h ctx r w) = observe (Handle lib hp h ctx r w)))
       \<and> (\<exists>hp' h'. WithAttrs lib hp h ats = Some (hp', h')
            \<and> handler_mem hp' ! h = handler_mem hp ! h
            \<and> scoped hp' h = scoped hp h
            \<and> backing hp' h = backing hp h
            \<and> (\<forall>ctx r w. observe (Handle lib hp' h ctx r w) = observe (Handle lib hp h ctx r w)))"
proof
  from WithGroup_scoped [OF assms, of lib name] obtain hp' where
    d: "WithGroup lib hp h name = Some (hp', length (handler_mem hp))"
       "length (handler_mem hp') = Suc (length (handler_mem hp))"
       "handler_mem hp' ! h = handler_mem hp ! h" "scoped hp' h = scoped hp h"
       "backing hp' h = backing hp h"
    using assms(2) by blast
  have "h < length (handler_mem hp')" using d(2) assms(2) by simp
  from Handle_scoped [OF assms(2) this d(4)] d
  show "\<exists>hp' h'. WithGroup lib hp h name = Some (hp', h')
            \<and> handler_mem hp' ! h = handler_mem hp ! h
            \<and> scoped hp' h = scoped hp h
            \<and> backing hp' h = backing hp h
            \<and> (\<forall>ctx r w. observe (Handle lib hp' h ctx r w) = observe (Handle lib hp h ctx r w))"
    by blast
next
  from WithAttrs_scoped [OF assms, of lib ats] obtain hp' where
    d: "WithAttrs lib hp h ats = Some (hp', length (handler_mem hp))"
       "length (handler_mem hp') = Suc (length (handler_mem hp))"
       "handler_mem hp' ! h = handler_mem hp ! h" "scoped hp' h = scoped hp h"
       "backing hp' h = backing hp h"
    using assms(2) by blast
  have "h < length (handler_mem hp')" using d(2) assms(2) by simp
  from Handle_scoped [OF assms(2) this d(4)] d
  show "\<exists>hp' h'. WithAttrs lib hp h ats = Some (hp', h')
            \<and> handler_mem hp' ! h = handler_mem hp ! h
            \<and> scoped hp' h = scoped hp h
            \<and> backing hp' h = backing hp h
            \<and> (\<forall>ctx r w. observe (Handle lib hp' h ctx r w) = observe (Handle lib hp h ctx r w))"
    by blast
qed

text \<open>
  The receiver of the witness has spare capacity: one bound attribute in an array of
  two. \<open>WithAttrs\<close> on it leaves the array, and the receiver's line, as they were.
\<close>

theorem derivation_leaves_receiver_witness:
  "wf_heap api_heap \<and> 1 < length (handler_mem api_heap)
   \<and> s_len (attrs (handler_mem api_heap ! 1)) = 1 \<and> s_cap (attrs (handler_mem api_heap ! 1)) = 2
   \<and> (\<exists>hp' h'. WithAttrs samplelib api_heap 1 [Attr ''extra'' (KindString ''val'')] = Some (hp', h')
         \<and> handler_mem hp' ! 1 = handler_mem api_heap ! 1
         \<and> backing hp' 1 = ([], [Attr ''service'' (KindString ''api''), zero_Attr])
         \<and> boundAttributes (scoped hp' 1) = [Attr ''service'' (KindString ''api'')]
         \<and> observe (Handle samplelib hp' 1 () (newTestRecord LevelInfo ''with preattrs'') ([], []))
             = Some ((''[12:30:45] INF with preattrs service=api\<newline>'', []), None))"
proof -
  have h: "1 < length (handler_mem api_heap)" by (simp add: api_heap_eq)
  have s: "scoped api_heap 1 = \<lparr>sink = buffer_sink, errorHook = None, groupPath = [],
      boundAttributes = [Attr ''service'' (KindString ''api'')]\<rparr>"
    by (simp add: scoped_def api_heap_eq elems_def array_at_def)
  have b: "backing api_heap 1 = ([], [Attr ''service'' (KindString ''api''), zero_Attr])"
    by (simp add: backing_def api_heap_eq array_at_def)
  have o: "observe (Handle samplelib api_heap 1 () (newTestRecord LevelInfo ''with preattrs'') ([], []))
             = Some ((''[12:30:45] INF with preattrs service=api\<newline>'', []), None)"
    by (subst Handle_observe_scoped [OF h])
       (simp add: s line_def samplelib_Paint plain_def group_prefix_def
        attrs_text_def newTestRecord_def Format_TimeOnly_test level_tag_def LevelInfo_def
        buffer_sink_def fmt_v_def formatValue_def del: One_nat_def)
  from derivation_leaves_receiver [OF wf_api_heap h, of samplelib "''g''"
      "[Attr ''extra'' (KindString ''val'')]"]
  obtain hp' h' where
    "WithAttrs samplelib api_heap 1 [Attr ''extra'' (KindString ''val'')] = Some (hp', h')"
    "handler_mem hp' ! 1 = handler_mem api_heap ! 1" "scoped hp' 1 = scoped api_heap 1"
    "backing hp' 1 = backing api_heap 1"
    "\<forall>ctx r w. observe (Handle samplelib hp' 1 ctx r w) = observe (Handle samplelib api_heap 1 ctx r w)"
    by blast
  then have "\<exists>hp' h'. WithAttrs samplelib api_heap 1 [Attr ''extra'' (KindString ''val'')] = Some (hp', h')
         \<and> handler_mem hp' ! 1 = handler_mem api_heap ! 1
         \<and> backing hp' 1 = ([], [Attr ''service'' (KindString ''api''), zero_Attr])
         \<and> boundAttributes (scoped hp' 1) = [Attr ''service'' (KindString ''api'')]
         \<and> observe (Handle samplelib hp' 1 () (newTestRecord LevelInfo ''with preattrs'') ([], []))
             = Some ((''[12:30:45] INF with preattrs service=api\<newline>'', []), None)"
    using s b o by (intro exI [of _ hp'] exI [of _ h']) simp
  moreover have "s_len (attrs (handler_mem api_heap ! 1)) = 1 \<and> s_cap (attrs (handler_mem api_heap ! 1)) = 2"
    by (simp add: api_heap_eq)
  ultimately show ?thesis using wf_api_heap h by blast
qed


text \<open>
  Claim C3. Dispatch through a handler of the heap runs the hook step and then hands the
  sink, in one write, the line of the specification's grammar for the handler's group
  path, its bound attributes and the record. In plain-text mode that line is exactly
  \<open>[\<close>, the time as HH:MM:SS, \<open>]\<close>, a space, the level tag, a space, the group path as
  \<open>name.\<close> segments, the message, the bound attributes in their order, the record's
  attributes in their order, and one newline.
\<close>

theorem Handle_renders_line:
  assumes "h < length (handler_mem hp)"
  shows "observe (Handle lib hp h ctx r w) =
     (case call_hook (handler_mem hp ! h) ctx r w of
        None \<Rightarrow> None
      | Some w1 \<Rightarrow>
          Some (Writer (handler_mem hp ! h)
            (line lib (elems (string_mem hp) (groups (handler_mem hp ! h)))
               (elems (attr_mem hp) (attrs (handler_mem hp ! h))) r) w1))
   \<and> (Paint lib = plain \<longrightarrow>
       line lib (elems (string_mem hp) (groups (handler_mem hp ! h)))
               (elems (attr_mem hp) (attrs (handler_mem hp ! h))) r =
         ''['' @ Format_TimeOnly (Time r) @ ''] '' @ level_tag (Level r) @ '' ''
         @ concat (map (\<lambda>g. g @ ''.'') (elems (string_mem hp) (groups (handler_mem hp ! h))))
         @ Message r
         @ concat (map (attr_text lib) (elems (attr_mem hp) (attrs (handler_mem hp ! h))))
         @ concat (map (attr_text lib) (Attrs r))
         @ ''\<newline>'')"
  using Handle_observe [OF assms] line_plain by (auto simp: attrs_text_def)

text \<open>The scenario of the specification: Info, \<open>server started\<close>, \<open>port=8080\<close>.\<close>

theorem Handle_renders_line_witness:
  "observe (Handle samplelib root_heap 0 ()
      ((newTestRecord LevelInfo ''server started'')\<lparr>Attrs := [Attr ''port'' (KindInt64 8080)]\<rparr>)
      ([], []))
   = Some ((''[12:30:45] INF server started port=8080\<newline>'', []), None)"
proof -
  let ?r = "(newTestRecord LevelInfo ''server started'')\<lparr>Attrs := [Attr ''port'' (KindInt64 8080)]\<rparr>"
  have p: "Paint samplelib = plain" by (simp add: samplelib_def)
  have h: "0 < length (handler_mem root_heap)" by (simp add: root_heap_eq)
  show ?thesis
    using Handle_renders_line [OF h, of samplelib "()" ?r "([], [])"] p
    by (simp add: Format_TimeOnly_test root_heap_eq call_hook_def elems_def array_at_def buffer_sink_def level_tag_def
        LevelInfo_def newTestRecord_def plain_def fmt_v_def formatValue_def decimal_int_def
        decimal_8080)
qed

text \<open>
  Claim C5, as stated, fails for a handler that already has a group path: for
  \<open>H = root.WithGroup("x")\<close>, the handler \<open>H.WithGroup("a").WithGroup("b").WithGroup("c")\<close>
  renders the prefix \<open>x.a.b.c.\<close>, not \<open>a.b.c.\<close>.
\<close>

theorem nested_groups_counterexample:
  "WithGroup samplelib root_heap 0 ''x'' = Some (x_heap, 1)
   \<and> WithGroup samplelib x_heap 1 ''a'' = Some (xa_heap, 2)
   \<and> WithGroup samplelib xa_heap 2 ''b'' = Some (xab_heap, 3)
   \<and> WithGroup samplelib xab_heap 3 ''c'' = Some (xabc_heap, 4)
   \<and> observe (Handle samplelib xabc_heap 4 () (newTestRecord LevelInfo ''deep'') ([], []))
       = Some ((''[12:30:45] INF x.a.b.c.deep\<newline>'', []), None)
   \<and> observe (Handle samplelib xabc_heap 4 () (newTestRecord LevelInfo ''deep'') ([], []))
       \<noteq> Some ((''[12:30:45] INF a.b.c.deep\<newline>'', []), None)"
proof -
  have h: "4 < length (handler_mem xabc_heap)" using xabc_heap_facts by simp
  have "observe (Handle samplelib xabc_heap 4 () (newTestRecord LevelInfo ''deep'') ([], []))
       = Some ((''[12:30:45] INF x.a.b.c.deep\<newline>'', []), None)"
    using xabc_heap_facts
    by (simp add: Handle_observe_scoped [OF h] line_def samplelib_def plain_def group_prefix_def
        attrs_text_def newTestRecord_def Format_TimeOnly_test level_tag_def LevelInfo_def
        buffer_sink_def)
  then show ?thesis
    using x_heap_facts xa_heap_facts xab_heap_facts xabc_heap_facts by simp
qed

text \<open>
  Claim C5, amended. For a handler \<open>h\<close> of a well-formed heap and names \<open>a\<close>, \<open>b\<close>, \<open>c\<close>,
  the three \<open>WithGroup\<close> calls return, the derived handler's group path is that of \<open>h\<close>
  followed by \<open>a\<close>, \<open>b\<close>, \<open>c\<close>, and in plain-text mode its line has, between the level
  tag and the message, the segments of \<open>h\<close>'s own group path and then \<open>a.b.c.\<close>: each name
  followed by a dot and nothing else. It is exactly \<open>a.b.c.\<close> when the group path of \<open>h\<close>
  is empty.
\<close>

theorem nested_groups_prefix:
  assumes "wf_heap hp" "h < length (handler_mem hp)" "Paint lib = plain"
  shows "\<exists>hp1 h1 hp2 h2 hp3 h3.
     WithGroup lib hp h a = Some (hp1, h1)
     \<and> WithGroup lib hp1 h1 b = Some (hp2, h2)
     \<and> WithGroup lib hp2 h2 c = Some (hp3, h3)
     \<and> elems (string_mem hp3) (groups (handler_mem hp3 ! h3))
         = elems (string_mem hp) (groups (handler_mem hp ! h)) @ [a, b, c]
     \<and> (\<forall>ctx r w. observe (Handle lib hp3 h3 ctx r w) =
          (case call_hook (handler_mem hp ! h) ctx r w of
             None \<Rightarrow> None
           | Some w1 \<Rightarrow>
               Some (Writer (handler_mem hp ! h)
                 (''['' @ Format_TimeOnly (Time r) @ ''] '' @ level_tag (Level r) @ '' ''
                  @ concat (map (\<lambda>g. g @ ''.'') (elems (string_mem hp) (groups (handler_mem hp ! h))))
                  @ a @ ''.'' @ b @ ''.'' @ c @ ''.''
                  @ Message r
                  @ concat (map (attr_text lib) (elems (attr_mem hp) (attrs (handler_mem hp ! h))))
                  @ concat (map (attr_text lib) (Attrs r))
                  @ ''\<newline>'') w1)))"
proof -
  let ?n = "length (handler_mem hp)"
  from WithGroup_scoped [OF assms(1,2), of lib a] obtain hp1 where
    1: "WithGroup lib hp h a = Some (hp1, ?n)" "wf_heap hp1"
       "length (handler_mem hp1) = Suc ?n"
       "scoped hp1 ?n = (scoped hp h)\<lparr>groupPath := groupPath (scoped hp h) @ [a]\<rparr>"
    by blast
  have h1: "?n < length (handler_mem hp1)" using 1(3) by simp
  from WithGroup_scoped [OF 1(2) h1, of lib b] obtain hp2 where
    2: "WithGroup lib hp1 ?n b = Some (hp2, Suc ?n)" "wf_heap hp2"
       "length (handler_mem hp2) = Suc (Suc ?n)"
       "scoped hp2 (Suc ?n) = (scoped hp1 ?n)\<lparr>groupPath := groupPath (scoped hp1 ?n) @ [b]\<rparr>"
    unfolding 1(3) by blast
  have h2: "Suc ?n < length (handler_mem hp2)" using 2(3) by simp
  from WithGroup_scoped [OF 2(2) h2, of lib c] obtain hp3 where
    3: "WithGroup lib hp2 (Suc ?n) c = Some (hp3, Suc (Suc ?n))" "wf_heap hp3"
       "length (handler_mem hp3) = Suc (Suc (Suc ?n))"
       "scoped hp3 (Suc (Suc ?n))
          = (scoped hp2 (Suc ?n))\<lparr>groupPath := groupPath (scoped hp2 (Suc ?n)) @ [c]\<rparr>"
    unfolding 2(3) by blast
  have h3: "Suc (Suc ?n) < length (handler_mem hp3)" using 3(3) by simp
  have s: "scoped hp3 (Suc (Suc ?n)) = (scoped hp h)\<lparr>groupPath := groupPath (scoped hp h) @ [a, b, c]\<rparr>"
    by (simp add: 1(4) 2(4) 3(4))
  have g: "elems (string_mem hp3) (groups (handler_mem hp3 ! Suc (Suc ?n)))
         = elems (string_mem hp) (groups (handler_mem hp ! h)) @ [a, b, c]"
    using arg_cong [OF s, of groupPath] by (simp add: scoped_simps)
  have o: "observe (Handle lib hp3 (Suc (Suc ?n)) ctx r w) =
          (case call_hook (handler_mem hp ! h) ctx r w of
             None \<Rightarrow> None
           | Some w1 \<Rightarrow>
               Some (Writer (handler_mem hp ! h)
                 (''['' @ Format_TimeOnly (Time r) @ ''] '' @ level_tag (Level r) @ '' ''
                  @ concat (map (\<lambda>g. g @ ''.'') (elems (string_mem hp) (groups (handler_mem hp ! h))))
                  @ a @ ''.'' @ b @ ''.'' @ c @ ''.''
                  @ Message r
                  @ concat (map (attr_text lib) (elems (attr_mem hp) (attrs (handler_mem hp ! h))))
                  @ concat (map (attr_text lib) (Attrs r))
                  @ ''\<newline>'') w1))" for ctx r w
    by (subst Handle_observe_scoped [OF h3])
       (simp add: s line_plain [OF assms(3)] scoped_simps call_hook_def attrs_text_def
          split: option.splits)
  show ?thesis
    using 1(1) 2(1) 3(1) g o by blast
qed

text \<open>From the root handler, whose group path is empty, the prefix is \<open>a.b.c.\<close>.\<close>

theorem nested_groups_prefix_witness:
  "wf_heap root_heap \<and> 0 < length (handler_mem root_heap) \<and> Paint samplelib = plain
   \<and> elems (string_mem root_heap) (groups (handler_mem root_heap ! 0)) = []
   \<and> (\<exists>hp1 h1 hp2 h2 hp3 h3.
         WithGroup samplelib root_heap 0 ''a'' = Some (hp1, h1)
       \<and> WithGroup samplelib hp1 h1 ''b'' = Some (hp2, h2)
       \<and> WithGroup samplelib hp2 h2 ''c'' = Some (hp3, h3)
       \<and> observe (Handle samplelib hp3 h3 () (newTestRecord LevelInfo ''deep'') ([], []))
           = Some ((''[12:30:45] INF a.b.c.deep\<newline>'', []), None))"
proof -
  have h: "0 < length (handler_mem root_heap)" by (simp add: root_heap_eq)
  from nested_groups_prefix [OF wf_root_heap h samplelib_Paint, of "''a''" "''b''" "''c''"]
  obtain hp1 h1 hp2 h2 hp3 h3 where
    d: "WithGroup samplelib root_heap 0 ''a'' = Some (hp1, h1)"
       "WithGroup samplelib hp1 h1 ''b'' = Some (hp2, h2)"
       "WithGroup samplelib hp2 h2 ''c'' = Some (hp3, h3)"
    and o: "\<forall>ctx r w. observe (Handle samplelib hp3 h3 ctx r w) =
          (case call_hook (handler_mem root_heap ! 0) ctx r w of
             None \<Rightarrow> None
           | Some w1 \<Rightarrow>
               Some (Writer (handler_mem root_heap ! 0)
                 (''['' @ Format_TimeOnly (Time r) @ ''] '' @ level_tag (Level r) @ '' ''
                  @ concat (map (\<lambda>g. g @ ''.'') (elems (string_mem root_heap) (groups (handler_mem root_heap ! 0))))
                  @ ''a'' @ ''.'' @ ''b'' @ ''.'' @ ''c'' @ ''.''
                  @ Message r
                  @ concat (map (attr_text samplelib) (elems (attr_mem root_heap) (attrs (handler_mem root_heap ! 0))))
                  @ concat (map (attr_text samplelib) (Attrs r))
                  @ ''\<newline>'') w1))"
    by blast
  have "observe (Handle samplelib hp3 h3 () (newTestRecord LevelInfo ''deep'') ([], []))
           = Some ((''[12:30:45] INF a.b.c.deep\<newline>'', []), None)"
    by (simp add: o root_heap_eq call_hook_def elems_def array_at_def newTestRecord_def
        Format_TimeOnly_test level_tag_def LevelInfo_def buffer_sink_def)
  moreover have "elems (string_mem root_heap) (groups (handler_mem root_heap ! 0)) = []"
    by (simp add: root_heap_eq elems_def)
  ultimately show ?thesis using d wf_root_heap h samplelib_Paint by blast
qed

text \<open>
  Claim C6. For every integer level the tag the \<open>switch\<close> of \<open>Handle\<close> picks is the
  specification's: \<open>DBG\<close>, \<open>INF\<close>, \<open>WRN\<close>, \<open>ERR\<close> for Debug, Info, Warn, Error and \<open>???\<close> for
  every other level; and the line is assembled without an error return, with that tag
  after the time stamp (stated in plain-text mode).
\<close>

theorem level_tag_fallback:
  "snd (snd (level_switch l)) = level_tag l
   \<and> level_tag LevelDebug = ''DBG'' \<and> level_tag LevelInfo = ''INF''
   \<and> level_tag LevelWarn = ''WRN'' \<and> level_tag LevelError = ''ERR''
   \<and> (l \<noteq> LevelDebug \<and> l \<noteq> LevelInfo \<and> l \<noteq> LevelWarn \<and> l \<noteq> LevelError
        \<longrightarrow> level_tag l = ''???'')
   \<and> (\<exists>ext. render (lib\<lparr>Paint := plain\<rparr>) hp H (r\<lparr>Level := l\<rparr>) =
          Inr (string_mem hp @ ext,
               ''['' @ Format_TimeOnly (Time r) @ ''] '' @ level_tag l @ '' ''
               @ concat (map (\<lambda>g. g @ ''.'') (elems (string_mem hp) (groups H)))
               @ Message r
               @ concat (map (attr_text (lib\<lparr>Paint := plain\<rparr>)) (elems (attr_mem hp) (attrs H)))
               @ concat (map (attr_text (lib\<lparr>Paint := plain\<rparr>)) (Attrs r))))"
proof -
  have a: "snd (snd (level_switch l)) = level_tag l" by (rule level_switch_tag)
  have b: "level_tag LevelDebug = ''DBG'' \<and> level_tag LevelInfo = ''INF''
   \<and> level_tag LevelWarn = ''WRN'' \<and> level_tag LevelError = ''ERR''
   \<and> (l \<noteq> LevelDebug \<and> l \<noteq> LevelInfo \<and> l \<noteq> LevelWarn \<and> l \<noteq> LevelError
        \<longrightarrow> level_tag l = ''???'')"
    by (simp add: level_tag_def LevelDebug_def LevelInfo_def LevelWarn_def LevelError_def)
  have p: "Paint (lib\<lparr>Paint := plain\<rparr>) = plain" by simp
  have c: "butlast (line (lib\<lparr>Paint := plain\<rparr>) gs bound (r\<lparr>Level := l\<rparr>)) =
      ''['' @ Format_TimeOnly (Time r) @ ''] '' @ level_tag l @ '' ''
               @ concat (map (\<lambda>g. g @ ''.'') gs) @ Message r
               @ concat (map (attr_text (lib\<lparr>Paint := plain\<rparr>)) bound)
               @ concat (map (attr_text (lib\<lparr>Paint := plain\<rparr>)) (Attrs r))" for gs bound
    by (simp add: line_plain [OF p] attrs_text_def butlast_append)
  from render_eq [of "lib\<lparr>Paint := plain\<rparr>" hp H "r\<lparr>Level := l\<rparr>"] c
  have "\<exists>ext. render (lib\<lparr>Paint := plain\<rparr>) hp H (r\<lparr>Level := l\<rparr>) =
          Inr (string_mem hp @ ext,
               ''['' @ Format_TimeOnly (Time r) @ ''] '' @ level_tag l @ '' ''
               @ concat (map (\<lambda>g. g @ ''.'') (elems (string_mem hp) (groups H)))
               @ Message r
               @ concat (map (attr_text (lib\<lparr>Paint := plain\<rparr>)) (elems (attr_mem hp) (attrs H)))
               @ concat (map (attr_text (lib\<lparr>Paint := plain\<rparr>)) (Attrs r)))"
    by simp
  with a b show ?thesis by blast
qed

text \<open>Levels far above Error and far below Debug; the line of a record at level 42.\<close>

theorem level_tag_fallback_witness:
  "snd (snd (level_switch 42)) = ''???'' \<and> snd (snd (level_switch (- 1000))) = ''???''
   \<and> (\<exists>ext. render samplelib root_heap (handler_mem root_heap ! 0) (newTestRecord 42 ''unknown level'')
         = Inr ([[]] @ ext, ''[12:30:45] ??? unknown level''))"
proof -
  let ?H = "handler_mem root_heap ! 0"
  let ?r = "newTestRecord 42 ''unknown level''"
  have s: "samplelib\<lparr>Paint := plain\<rparr> = samplelib" by (simp add: samplelib_def)
  have r: "?r\<lparr>Level := 42\<rparr> = ?r"
    by (simp add: newTestRecord_def)
  have n: "(42::int) \<noteq> LevelDebug \<and> (42::int) \<noteq> LevelInfo \<and> (42::int) \<noteq> LevelWarn
      \<and> (42::int) \<noteq> LevelError"
    "(- 1000::int) \<noteq> LevelDebug \<and> (- 1000::int) \<noteq> LevelInfo \<and> (- 1000::int) \<noteq> LevelWarn
      \<and> (- 1000::int) \<noteq> LevelError"
    by (simp_all add: LevelDebug_def LevelInfo_def LevelWarn_def LevelError_def)
  from level_tag_fallback [of 42 samplelib root_heap ?H ?r] n(1)
  have a: "snd (snd (level_switch 42)) = ''???''" "level_tag 42 = ''???''"
    and b: "\<exists>ext. render samplelib root_heap ?H ?r =
          Inr (string_mem root_heap @ ext,
               ''['' @ Format_TimeOnly (Time ?r) @ ''] '' @ level_tag 42 @ '' ''
               @ concat (map (\<lambda>g. g @ ''.'') (elems (string_mem root_heap) (groups ?H)))
               @ Message ?r
               @ concat (map (attr_text samplelib) (elems (attr_mem root_heap) (attrs ?H)))
               @ concat (map (attr_text samplelib) (Attrs ?r)))"
    unfolding s r by auto
  from level_tag_fallback [of "- 1000" samplelib root_heap ?H ?r] n(2)
  have c: "snd (snd (level_switch (- 1000))) = ''???''" by simp
  from b have "\<exists>ext. render samplelib root_heap ?H ?r
         = Inr ([[]] @ ext, ''[12:30:45] ??? unknown level'')"
    by (simp add: a(2) root_heap_eq elems_def array_at_def newTestRecord_def Format_TimeOnly_test)
  with a(1) c show ?thesis by blast
qed

text \<open>
  Claim C7. Dispatch through a handler of the heap: with no hook set, or with a level
  below Error, the call returns and the sink's write acts on the world as the caller
  left it, so no hook has run; with a hook set and a level of Error or above, the hook
  is applied to the context, the record and the caller's world first, its panic is the
  call's, and otherwise the sink's write acts on the world the hook left.
\<close>

theorem hook_gating:
  assumes "h < length (handler_mem hp)"
  shows
   "(HookFn (handler_mem hp ! h) = None \<or> Level r < LevelError \<longrightarrow>
       observe (Handle lib hp h ctx r w) =
         Some (Writer (handler_mem hp ! h)
           (line lib (elems (string_mem hp) (groups (handler_mem hp ! h)))
              (elems (attr_mem hp) (attrs (handler_mem hp ! h))) r) w))
    \<and> (\<forall>fn. HookFn (handler_mem hp ! h) = Some fn \<and> LevelError \<le> Level r \<longrightarrow>
         (case fn ctx r w of
            None \<Rightarrow> Handle lib hp h ctx r w = Panic
          | Some w1 \<Rightarrow>
              observe (Handle lib hp h ctx r w) =
                Some (Writer (handler_mem hp ! h)
                  (line lib (elems (string_mem hp) (groups (handler_mem hp ! h)))
                     (elems (attr_mem hp) (attrs (handler_mem hp ! h))) r) w1)))"
proof -
  have p: "observe out = None \<Longrightarrow> out = Panic" for out :: "('x, 'y) outcome"
    by (cases out) (simp_all add: observe_def)
  show ?thesis
    using Handle_observe [OF assms, of lib ctx r w] p [of "Handle lib hp h ctx r w"]
    by (auto simp: call_hook_def split: option.splits)
qed

text \<open>
  The capturing hook records the message of an Error record and of no Debug, Info or
  Warn record; the root handler without a hook writes its Error line and returns.
\<close>

theorem hook_gating_witness:
  "observe (Handle samplelib hooked_heap 0 () (newTestRecord LevelError ''something broke'') ([], []))
     = Some ((''[12:30:45] ERR something broke\<newline>'', [''something broke'']), None)
   \<and> observe (Handle samplelib hooked_heap 0 () (newTestRecord LevelWarn ''low level'') ([], []))
     = Some ((''[12:30:45] WRN low level\<newline>'', []), None)
   \<and> observe (Handle samplelib hooked_heap 0 () (newTestRecord LevelInfo ''low level'') ([], []))
     = Some ((''[12:30:45] INF low level\<newline>'', []), None)
   \<and> observe (Handle samplelib hooked_heap 0 () (newTestRecord LevelDebug ''low level'') ([], []))
     = Some ((''[12:30:45] DBG low level\<newline>'', []), None)
   \<and> observe (Handle samplelib root_heap 0 () (newTestRecord LevelError ''no hook'') ([], []))
     = Some ((''[12:30:45] ERR no hook\<newline>'', []), None)"
proof -
  have h: "0 < length (handler_mem hooked_heap)" "0 < length (handler_mem root_heap)"
    using hooked_heap_facts by (simp_all add: root_heap_eq)
  have H: "HookFn (handler_mem hooked_heap ! 0) = Some capture_hook"
    "Writer (handler_mem hooked_heap ! 0) = buffer_sink"
    "elems (string_mem hooked_heap) (groups (handler_mem hooked_heap ! 0)) = []"
    "elems (attr_mem hooked_heap) (attrs (handler_mem hooked_heap ! 0)) = []"
    using hooked_heap_facts by (simp_all add: scoped_simps [symmetric])
  have R: "HookFn (handler_mem root_heap ! 0) = None"
    "Writer (handler_mem root_heap ! 0) = buffer_sink"
    "elems (string_mem root_heap) (groups (handler_mem root_heap ! 0)) = []"
    "elems (attr_mem root_heap) (attrs (handler_mem root_heap ! 0)) = []"
    using scoped_root by (simp_all add: scoped_simps [symmetric])
  have l: "line samplelib [] [] (newTestRecord lv m) = ''[12:30:45] '' @ level_tag lv @ '' '' @ m @ ''\<newline>''"
    for lv m
    by (simp add: line_plain [OF samplelib_Paint] newTestRecord_def Format_TimeOnly_test attrs_text_def)
  have lv: "Level (newTestRecord lv m) = lv" "Message (newTestRecord lv m) = m" for lv m
    by (simp_all add: newTestRecord_def)
  note g = hook_gating [OF h(1), of "newTestRecord LevelError ''something broke''" samplelib "()" "([], [])"]
    hook_gating [OF h(1), of "newTestRecord LevelWarn ''low level''" samplelib "()" "([], [])"]
    hook_gating [OF h(1), of "newTestRecord LevelInfo ''low level''" samplelib "()" "([], [])"]
    hook_gating [OF h(1), of "newTestRecord LevelDebug ''low level''" samplelib "()" "([], [])"]
    hook_gating [OF h(2), of "newTestRecord LevelError ''no hook''" samplelib "()" "([], [])"]
  show ?thesis
    using g
    by (simp add: H R l lv capture_hook_def buffer_sink_def level_tag_def LevelError_def
        LevelWarn_def LevelInfo_def LevelDebug_def)
qed

text \<open>
  Claim C8. An Any payload that is neither an error nor a string is marshalled to JSON
  with an empty prefix and a two-space indent, and the JSON text is the result; when
  marshalling fails the value itself is the result, unchanged. No branch returns an
  error: the text printed for such an attribute is the JSON text, or what \<open>%v\<close> prints
  for the value. The nil payload goes the same way.
\<close>

theorem formatAnyValue_structured:
  "formatAnyValue lib (AOther x) =
     (case MarshalIndent lib (AOther x) '''' ''  '' of
        Inr jsonBytes \<Rightarrow> GString jsonBytes
      | Inl err \<Rightarrow> GOther x)
   \<and> formatAnyValue lib ANil =
     (case MarshalIndent lib ANil '''' ''  '' of
        Inr jsonBytes \<Rightarrow> GString jsonBytes
      | Inl err \<Rightarrow> GNil)
   \<and> fmt_v lib (formatValue lib (KindAny (AOther x))) =
     (case MarshalIndent lib (AOther x) '''' ''  '' of
        Inr jsonBytes \<Rightarrow> jsonBytes
      | Inl err \<Rightarrow> Sprint lib (GOther x))"
  by (simp add: formatAnyValue_def formatValue_def any_goval_def fmt_v_def split: sum.splits)

text \<open>The struct of the package's test marshals; the channel does not and is returned.\<close>

theorem formatAnyValue_structured_witness:
  "formatAnyValue samplelib (AOther Person)
     = GString ''{\<newline>  \"name\": \"Bob\",\<newline>  \"age\": 30\<newline>}''
   \<and> formatAnyValue samplelib (AOther Channel) = GOther Channel
   \<and> fmt_v samplelib (formatValue samplelib (KindAny (AOther Channel))) = ''0xc000012345''"
  using formatAnyValue_structured [of samplelib Person]
        formatAnyValue_structured [of samplelib Channel]
  by (simp add: samplelib_def)

text \<open>
  Claim C9. For an attribute whose value is a group, \<open>processAttr\<close> appends to the buffer
  the text of the group's children, in their order, and nothing else: the result does
  not depend on the group's key, which is never printed.
\<close>

theorem group_key_not_printed:
  "snd (processAttr lib gs (mem, buf) (Attr k (KindGroup groupAttrs)))
     = buf @ concat (map (attr_text lib) groupAttrs)
   \<and> snd (processAttr lib gs (mem, buf) (Attr k (KindGroup groupAttrs)))
     = snd (processAttr lib gs (mem, buf) (Attr k' (KindGroup groupAttrs)))
   \<and> attr_text lib (Attr k (KindGroup groupAttrs)) = concat (map (attr_text lib) groupAttrs)"
  by (simp add: processAttr_buf attrs_text_def del: processAttr.simps)

text \<open>The group \<open>user{name: "Alice", id: 7}\<close> of the specification's scenario.\<close>

theorem group_key_not_printed_witness:
  "snd (processAttr samplelib \<lparr>s_ptr = 0, s_len = 0, s_cap = 0\<rparr>
          ([[]], ''[12:30:45] INF nested group'')
          (Attr ''user'' (KindGroup [Attr ''name'' (KindString ''Alice''), Attr ''id'' (KindInt64 7)])))
     = ''[12:30:45] INF nested group name=Alice id=7''"
  using group_key_not_printed [of samplelib "\<lparr>s_ptr = 0, s_len = 0, s_cap = 0\<rparr>" "[[]]"
      "''[12:30:45] INF nested group''" "''user''"
      "[Attr ''name'' (KindString ''Alice''), Attr ''id'' (KindInt64 7)]"]
  by (simp add: samplelib_def plain_def fmt_v_def formatValue_def decimal_int_def decimal_1digit
      digit_char_def)

text \<open>
  Claim C10. For a handler \<open>h\<close> of a well-formed heap, \<open>WithGroup\<close> and \<open>WithAttrs\<close> return
  a handler at another address whose hook is the hook \<open>h\<close> has at that moment. A later
  \<open>SetHook\<close> on \<open>h\<close> sets the hook of \<open>h\<close> and leaves the hook of the derived handler, and
  every dispatch through the derived handler, as they were; a later \<open>SetHook\<close> on the
  derived handler likewise leaves \<open>h\<close> as it was.
\<close>

theorem hook_copied_at_derivation:
  assumes "wf_heap hp" "h < length (handler_mem hp)"
  shows
   "(\<exists>hp1 h2. WithGroup lib hp h name = Some (hp1, h2) \<and> h2 \<noteq> h
        \<and> HookFn (handler_mem hp1 ! h2) = HookFn (handler_mem hp ! h)
        \<and> (\<exists>hp2. SetHook hp1 h fn = Some hp2
              \<and> HookFn (handler_mem hp2 ! h) = fn
              \<and> HookFn (handler_mem hp2 ! h2) = HookFn (handler_mem hp ! h)
              \<and> (\<forall>ctx r w. observe (Handle lib hp2 h2 ctx r w) = observe (Handle lib hp1 h2 ctx r w)))
        \<and> (\<exists>hp2. SetHook hp1 h2 fn = Some hp2
              \<and> HookFn (handler_mem hp2 ! h2) = fn
              \<and> HookFn (handler_mem hp2 ! h) = HookFn (handler_mem hp ! h)
              \<and> (\<forall>ctx r w. observe (Handle lib hp2 h ctx r w) = observe (Handle lib hp1 h ctx r w))))
    \<and> (\<exists>hp1 h2. WithAttrs lib hp h ats = Some (hp1, h2) \<and> h2 \<noteq> h
        \<and> HookFn (handler_mem hp1 ! h2) = HookFn (handler_mem hp ! h)
        \<and> (\<exists>hp2. SetHook hp1 h fn = Some hp2
              \<and> HookFn (handler_mem hp2 ! h) = fn
              \<and> HookFn (handler_mem hp2 ! h2) = HookFn (handler_mem hp ! h)
              \<and> (\<forall>ctx r w. observe (Handle lib hp2 h2 ctx r w) = observe (Handle lib hp1 h2 ctx r w)))
        \<and> (\<exists>hp2. SetHook hp1 h2 fn = Some hp2
              \<and> HookFn (handler_mem hp2 ! h2) = fn
              \<and> HookFn (handler_mem hp2 ! h) = HookFn (handler_mem hp ! h)
              \<and> (\<forall>ctx r w. observe (Handle lib hp2 h ctx r w) = observe (Handle lib hp1 h ctx r w))))"
proof -
  let ?n = "length (handler_mem hp)"
  have after_derivation:
    "h2 \<noteq> h
        \<and> HookFn (handler_mem hp1 ! h2) = HookFn (handler_mem hp ! h)
        \<and> (\<exists>hp2. SetHook hp1 h fn = Some hp2
              \<and> HookFn (handler_mem hp2 ! h) = fn
              \<and> HookFn (handler_mem hp2 ! h2) = HookFn (handler_mem hp ! h)
              \<and> (\<forall>ctx r w. observe (Handle lib hp2 h2 ctx r w) = observe (Handle lib hp1 h2 ctx r w)))
        \<and> (\<exists>hp2. SetHook hp1 h2 fn = Some hp2
              \<and> HookFn (handler_mem hp2 ! h2) = fn
              \<and> HookFn (handler_mem hp2 ! h) = HookFn (handler_mem hp ! h)
              \<and> (\<forall>ctx r w. observe (Handle lib hp2 h ctx r w) = observe (Handle lib hp1 h ctx r w)))"
    if d: "h2 = ?n" "length (handler_mem hp1) = Suc ?n"
      "errorHook (scoped hp1 h2) = errorHook (scoped hp h)"
      "handler_mem hp1 ! h = handler_mem hp ! h"
    for hp1 :: "('a, 'b, 'c) heap" and h2
  proof -
    have ne: "h2 \<noteq> h" using d(1) assms(2) by simp
    have v: "h < length (handler_mem hp1)" "h2 < length (handler_mem hp1)"
      using d(1,2) assms(2) by simp_all
    have c: "HookFn (handler_mem hp1 ! h2) = HookFn (handler_mem hp ! h)"
      using d(3) by (simp add: scoped_simps)
    from SetHook_scoped [OF v(1), of fn] obtain hp2 where
      a: "SetHook hp1 h fn = Some hp2" "length (handler_mem hp2) = length (handler_mem hp1)"
         "HookFn (handler_mem hp2 ! h) = fn"
         "handler_mem hp2 ! h2 = handler_mem hp1 ! h2" "scoped hp2 h2 = scoped hp1 h2"
      using ne by blast
    have a': "\<exists>hp2. SetHook hp1 h fn = Some hp2
              \<and> HookFn (handler_mem hp2 ! h) = fn
              \<and> HookFn (handler_mem hp2 ! h2) = HookFn (handler_mem hp ! h)
              \<and> (\<forall>ctx r w. observe (Handle lib hp2 h2 ctx r w) = observe (Handle lib hp1 h2 ctx r w))"
      using a c Handle_scoped [OF v(2) _ a(5), of lib] v(2) by auto
    from SetHook_scoped [OF v(2), of fn] obtain hp2 where
      b: "SetHook hp1 h2 fn = Some hp2" "length (handler_mem hp2) = length (handler_mem hp1)"
         "HookFn (handler_mem hp2 ! h2) = fn"
         "handler_mem hp2 ! h = handler_mem hp1 ! h" "scoped hp2 h = scoped hp1 h"
      using ne by (metis (no_types, lifting))
    have b': "\<exists>hp2. SetHook hp1 h2 fn = Some hp2
              \<and> HookFn (handler_mem hp2 ! h2) = fn
              \<and> HookFn (handler_mem hp2 ! h) = HookFn (handler_mem hp ! h)
              \<and> (\<forall>ctx r w. observe (Handle lib hp2 h ctx r w) = observe (Handle lib hp1 h ctx r w))"
      using b d(4) Handle_scoped [OF v(1) _ b(5), of lib] v(1) by auto
    show ?thesis using ne c a' b' by blast
  qed
  from WithGroup_scoped [OF assms, of lib name] obtain hp1 where
    g: "WithGroup lib hp h name = Some (hp1, ?n)" "length (handler_mem hp1) = Suc ?n"
       "scoped hp1 ?n = (scoped hp h)\<lparr>groupPath := groupPath (scoped hp h) @ [name]\<rparr>"
       "handler_mem hp1 ! h = handler_mem hp ! h"
    using assms(2) by blast
  have g3: "errorHook (scoped hp1 ?n) = errorHook (scoped hp h)" by (simp add: g(3))
  from WithAttrs_scoped [OF assms, of lib ats] obtain hp1' where
    t: "WithAttrs lib hp h ats = Some (hp1', ?n)" "length (handler_mem hp1') = Suc ?n"
       "scoped hp1' ?n = (scoped hp h)\<lparr>boundAttributes := boundAttributes (scoped hp h) @ ats\<rparr>"
       "handler_mem hp1' ! h = handler_mem hp ! h"
    using assms(2) by blast
  have t3: "errorHook (scoped hp1' ?n) = errorHook (scoped hp h)" by (simp add: t(3))
  show ?thesis
    using g(1) after_derivation [OF refl g(2) g3 g(4)] t(1) after_derivation [OF refl t(2) t3 t(4)]
    by blast
qed

text \<open>
  A hook set on the root after \<open>root.WithGroup("http")\<close>: the derived handler still has
  none, and its Error record is written without the hook capturing it.
\<close>

theorem hook_copied_at_derivation_witness:
  "wf_heap root_heap \<and> 0 < length (handler_mem root_heap)
   \<and> (\<exists>hp1 h2 hp2.
         WithGroup samplelib root_heap 0 ''http'' = Some (hp1, h2)
       \<and> SetHook hp1 0 (Some capture_hook) = Some hp2
       \<and> HookFn (handler_mem hp2 ! 0) = Some capture_hook
       \<and> HookFn (handler_mem hp2 ! h2) = None
       \<and> observe (Handle samplelib hp2 h2 () (newTestRecord LevelError ''query failed'') ([], []))
           = Some ((''[12:30:45] ERR http.query failed\<newline>'', []), None))"
proof -
  have h: "0 < length (handler_mem root_heap)" by (simp add: root_heap_eq)
  have R: "HookFn (handler_mem root_heap ! 0) = None"
    using scoped_root by (simp add: scoped_simps [symmetric])
  from hook_copied_at_derivation [OF wf_root_heap h, of samplelib "''http''" "Some capture_hook" "[]"]
  obtain hp1 h2 hp2 where
    d: "WithGroup samplelib root_heap 0 ''http'' = Some (hp1, h2)"
       "SetHook hp1 0 (Some capture_hook) = Some hp2"
       "HookFn (handler_mem hp2 ! 0) = Some capture_hook"
       "HookFn (handler_mem hp2 ! h2) = HookFn (handler_mem root_heap ! 0)"
       "\<forall>ctx r w. observe (Handle samplelib hp2 h2 ctx r w) = observe (Handle samplelib hp1 h2 ctx r w)"
    by blast
  from WithGroup_scoped [OF wf_root_heap h, of samplelib "''http''"] d(1)
  have s: "h2 = 1" "length (handler_mem hp1) = 2"
    "scoped hp1 1 = \<lparr>sink = buffer_sink, errorHook = None, groupPath = [''http''], boundAttributes = []\<rparr>"
    by (auto simp: length_root scoped_root)
  have v: "1 < length (handler_mem hp1)" using s(2) by simp
  have "observe (Handle samplelib hp1 1 () (newTestRecord LevelError ''query failed'') ([], []))
           = Some ((''[12:30:45] ERR http.query failed\<newline>'', []), None)"
    by (subst Handle_observe_scoped [OF v])
       (simp add: s(3) line_plain [OF samplelib_Paint] newTestRecord_def Format_TimeOnly_test
          attrs_text_def level_tag_def LevelError_def buffer_sink_def del: One_nat_def)
  then have "observe (Handle samplelib hp2 h2 () (newTestRecord LevelError ''query failed'') ([], []))
           = Some ((''[12:30:45] ERR http.query failed\<newline>'', []), None)"
    using d(5) s(1) by simp
  then show ?thesis
    using wf_root_heap h d(1,2,3,4) R by auto
qed

end
